theory Spec2Isabelle
  imports Main "HOL-Library.Sublist"
begin

section \<open>The metrics runner \<^verbatim>\<open>tools/run_metrics.py\<close>\<close>

text \<open>
  The script stages candidate rasters in a working directory, writes a config document,
  reprojects the staged rasters into the reference coordinate system, coerces the DSM to
  Float32 and hands over to the evaluation engine. Everything it does is a call into the
  operating system, into \<^verbatim>\<open>danesfield.metrics\<close> or into \<^verbatim>\<open>core3dmetrics\<close>, so the
  model is a state-and-error monad over a file system together with the log of the calls
  made, in the order they were made.
\<close>

subsection \<open>Paths (\<^verbatim>\<open>posixpath\<close>)\<close>

type_synonym path = string

definition sep :: char where
  "sep = CHR ''/''"

text \<open>\<^verbatim>\<open>os.path.basename(p)\<close>: \<^verbatim>\<open>i = p.rfind('/') + 1; return p[i:]\<close>.\<close>

definition os_path_basename :: "path \<Rightarrow> string" where
  "os_path_basename p = rev (takeWhile (\<lambda>c. c \<noteq> sep) (rev p))"

text \<open>
  \<^verbatim>\<open>os.path.join(a, b)\<close> with two arguments: \<^verbatim>\<open>b\<close> alone when it starts with the
  separator, plain concatenation when \<^verbatim>\<open>a\<close> is empty or ends with the separator, and
  otherwise the two joined by one separator.
\<close>

definition os_path_join :: "path \<Rightarrow> path \<Rightarrow> path" where
  "os_path_join a b =
     (if b \<noteq> [] \<and> hd b = sep then b
      else if a = [] \<or> last a = sep then a @ b
      else a @ [sep] @ b)"

text \<open>\<^verbatim>\<open>p.split('/')\<close>: the pieces between separators, empty pieces included.\<close>

fun split_sep :: "string \<Rightarrow> string list" where
  "split_sep [] = [[]]"
| "split_sep (c # cs) =
     (if c = sep then [] # split_sep cs
      else (case split_sep cs of
              [] \<Rightarrow> [[c]]
            | x # xs \<Rightarrow> (c # x) # xs))"

subsection \<open>The file system\<close>

text \<open>
  A raster is abstracted to what the pipeline reads and rewrites: its coordinate system
  (absent when the file carries none), its pixel storage type, and whether its values
  fit single precision. Any other file, a corrupt raster included, is its text.
\<close>

datatype pixel_type = Byte | Int32 | Float32 | Float64

record raster =
  crs :: "string option"
  dtype :: pixel_type
  fits_float32 :: bool

datatype content = Raster raster | Text string

datatype node = Dir | File content

text \<open>
  A file is addressed by the list of the names on the way from the root. Symbolic links
  and permissions are not modelled; \<^verbatim>\<open>..\<close> is resolved lexically and a trailing
  separator is ignored.
\<close>

type_synonym key = "string list"

type_synonym filesystem = "key \<rightharpoonup> node"

fun walk :: "key \<Rightarrow> string list \<Rightarrow> key" where
  "walk k [] = k"
| "walk k (c # cs) =
     (if c = [] \<or> c = ''.'' then walk k cs
      else if c = ''..'' then walk (butlast k) cs
      else walk (k @ [c]) cs)"

definition node_at :: "filesystem \<Rightarrow> key \<Rightarrow> node option" where
  "node_at f k = (if k = [] then Some Dir else f k)"

subsection \<open>Calls, errors, environment and state\<close>

text \<open>
  The config template is a text with holes, one kind of hole for each logical role.
\<close>

datatype placeholder = RefPrefix | TestDSM | TestCLS | TestMTL | TestDTM

datatype token = Lit string | Hole placeholder

text \<open>
  One constructor for each operation the script calls outside itself, with the arguments
  of the call. \<open>GetCoordinateSystem\<close> also records what the call returned, since that
  value is what the script passes on to the reprojections.
\<close>

datatype call =
    PathExists path
  | Makedirs path
  | Now
  | Mkdir path
  | Copyfile path path
  | GetTemplate
  | PopulateTemplate "token list" string string string string string
  | GetFilename string string
  | OpenWrite path string
  | GetCoordinateSystem path "string option"
  | ConvertCoordinateSystem path string
  | ConvertFloat32 path
  | Core3dMetrics "string list"

text \<open>
  The operating-system errors carry Python's names; those of \<^verbatim>\<open>danesfield.metrics\<close>
  and of the engine carry the names of the specification's taxonomy.
\<close>

datatype error =
    FileNotFoundError path
  | FileExistsError path
  | IsADirectoryError path
  | NotADirectoryError path
  | SameFileError path path
  | TemplateError
  | UnreadableRasterError path
  | ReprojectionError path
  | DtypeConversionError path
  | EngineInvocationError

text \<open>
  What a run reads but never changes: the current directory, the clock reading (the
  whole seconds of \<^verbatim>\<open>datetime.datetime.now().timestamp()\<close> and the digits Python prints
  after the decimal point), the template and the file-name rule of
  \<^verbatim>\<open>danesfield.metrics.config\<close>, and whether the engine completes on given arguments.
\<close>

record env =
  cwd :: key
  clock_secs :: nat
  clock_frac :: string
  template :: "token list"
  filename_rule :: "string \<Rightarrow> string \<Rightarrow> string"
  engine_ok :: "string list \<Rightarrow> bool"

record state =
  fs :: filesystem
  trace :: "call list"

type_synonym 'a prog = "state \<Rightarrow> (error + 'a) \<times> state"

definition ret :: "'a \<Rightarrow> 'a prog" where
  "ret x s = (Inr x, s)"

text \<open>Sequencing: an exception of the first part skips the rest.\<close>

definition bind :: "'a prog \<Rightarrow> ('a \<Rightarrow> 'b prog) \<Rightarrow> 'b prog" where
  "bind m f s =
     (case m s of
        (Inl e, s') \<Rightarrow> (Inl e, s')
      | (Inr x, s') \<Rightarrow> f x s')"

definition log :: "call \<Rightarrow> state \<Rightarrow> state" where
  "log c s = s\<lparr>trace := trace s @ [c]\<rparr>"

definition is_abs :: "path \<Rightarrow> bool" where
  "is_abs p = (p \<noteq> [] \<and> hd p = sep)"

definition resolve :: "env \<Rightarrow> path \<Rightarrow> key" where
  "resolve e p = walk (if is_abs p then [] else cwd e) (split_sep p)"

text \<open>What a path names: nothing for the empty path, as in POSIX.\<close>

definition lookup :: "env \<Rightarrow> filesystem \<Rightarrow> path \<Rightarrow> node option" where
  "lookup e f p = (if p = [] then None else node_at f (resolve e p))"

subsection \<open>Operating-system calls\<close>

text \<open>\<^verbatim>\<open>os.path.exists(p)\<close>.\<close>

definition os_path_exists :: "env \<Rightarrow> path \<Rightarrow> bool prog" where
  "os_path_exists e p s = (Inr (lookup e (fs s) p \<noteq> None), log (PathExists p) s)"

text \<open>Creating an entry needs its parent to be a directory.\<close>

definition parent_error :: "filesystem \<Rightarrow> key \<Rightarrow> path \<Rightarrow> error option" where
  "parent_error f k p =
     (case node_at f (butlast k) of
        None \<Rightarrow> Some (FileNotFoundError p)
      | Some (File c) \<Rightarrow> Some (NotADirectoryError p)
      | Some Dir \<Rightarrow> None)"

text \<open>\<^verbatim>\<open>os.mkdir(p)\<close>: fails when the path names something already.\<close>

definition mkdir_fs :: "env \<Rightarrow> filesystem \<Rightarrow> path \<Rightarrow> error + filesystem" where
  "mkdir_fs e f p =
     (if p = [] then Inl (FileNotFoundError p)
      else if node_at f (resolve e p) \<noteq> None then Inl (FileExistsError p)
      else (case parent_error f (resolve e p) p of
              Some err \<Rightarrow> Inl err
            | None \<Rightarrow> Inr (f(resolve e p \<mapsto> Dir))))"

definition os_mkdir :: "env \<Rightarrow> path \<Rightarrow> unit prog" where
  "os_mkdir e p s =
     (case mkdir_fs e (fs s) p of
        Inl err \<Rightarrow> (Inl err, log (Mkdir p) s)
      | Inr f \<Rightarrow> (Inr (), log (Mkdir p) (s\<lparr>fs := f\<rparr>)))"

text \<open>
  \<^verbatim>\<open>os.makedirs(p)\<close> (with \<^verbatim>\<open>exist_ok=False\<close>): creates the missing directories on
  the way down to the leaf, and fails when the leaf exists or when a regular file is in
  the way. Directories created before a failure stay.
\<close>

fun make_path :: "filesystem \<Rightarrow> key \<Rightarrow> string list \<Rightarrow> path \<Rightarrow> error option \<times> filesystem" where
  "make_path f k [] p = (None, f)"
| "make_path f k (c # cs) p =
     (case node_at f (k @ [c]) of
        None \<Rightarrow> make_path (f(k @ [c] \<mapsto> Dir)) (k @ [c]) cs p
      | Some Dir \<Rightarrow> make_path f (k @ [c]) cs p
      | Some (File x) \<Rightarrow> (Some (NotADirectoryError p), f))"

definition makedirs_fs :: "env \<Rightarrow> filesystem \<Rightarrow> path \<Rightarrow> error option \<times> filesystem" where
  "makedirs_fs e f p =
     (if p = [] then (Some (FileNotFoundError p), f)
      else if node_at f (resolve e p) \<noteq> None then (Some (FileExistsError p), f)
      else make_path f [] (resolve e p) p)"

definition os_makedirs :: "env \<Rightarrow> path \<Rightarrow> unit prog" where
  "os_makedirs e p s =
     (case makedirs_fs e (fs s) p of
        (Some err, f) \<Rightarrow> (Inl err, log (Makedirs p) (s\<lparr>fs := f\<rparr>))
      | (None, f) \<Rightarrow> (Inr (), log (Makedirs p) (s\<lparr>fs := f\<rparr>)))"

text \<open>Opening a path for writing: where the bytes will go, or the error.\<close>

definition open_w :: "env \<Rightarrow> filesystem \<Rightarrow> path \<Rightarrow> error + key" where
  "open_w e f p =
     (if p = [] then Inl (FileNotFoundError p)
      else (case node_at f (resolve e p) of
              Some Dir \<Rightarrow> Inl (IsADirectoryError p)
            | _ \<Rightarrow> (case parent_error f (resolve e p) p of
                      Some err \<Rightarrow> Inl err
                    | None \<Rightarrow> Inr (resolve e p))))"

text \<open>
  \<^verbatim>\<open>shutil.copyfile(src, dst)\<close>: refuses to copy a file onto itself, then opens the
  source for reading and the destination for writing, and replaces the destination's
  content.
\<close>

definition copyfile_fs :: "env \<Rightarrow> filesystem \<Rightarrow> path \<Rightarrow> path \<Rightarrow> error + filesystem" where
  "copyfile_fs e f src dst =
     (if lookup e f src \<noteq> None \<and> lookup e f dst \<noteq> None \<and> resolve e src = resolve e dst
      then Inl (SameFileError src dst)
      else (case lookup e f src of
              None \<Rightarrow> Inl (FileNotFoundError src)
            | Some Dir \<Rightarrow> Inl (IsADirectoryError src)
            | Some (File c) \<Rightarrow>
                (case open_w e f dst of
                   Inl err \<Rightarrow> Inl err
                 | Inr k \<Rightarrow> Inr (f(k \<mapsto> File c)))))"

definition shutil_copyfile :: "env \<Rightarrow> path \<Rightarrow> path \<Rightarrow> unit prog" where
  "shutil_copyfile e src dst s =
     (case copyfile_fs e (fs s) src dst of
        Inl err \<Rightarrow> (Inl err, log (Copyfile src dst) s)
      | Inr f \<Rightarrow> (Inr (), log (Copyfile src dst) (s\<lparr>fs := f\<rparr>)))"

text \<open>\<^verbatim>\<open>with open(p, 'w') as f: f.write(contents)\<close>.\<close>

definition write_file :: "env \<Rightarrow> path \<Rightarrow> string \<Rightarrow> unit prog" where
  "write_file e p contents s =
     (case open_w e (fs s) p of
        Inl err \<Rightarrow> (Inl err, log (OpenWrite p contents) s)
      | Inr k \<Rightarrow> (Inr (), log (OpenWrite p contents) (s\<lparr>fs := (fs s)(k \<mapsto> File (Text contents))\<rparr>)))"

text \<open>
  \<^verbatim>\<open>str(datetime.datetime.now().timestamp())\<close>: the float is replaced by its decimal
  rendering, whole seconds, a point, and the fractional digits.
\<close>

definition digit_char :: "nat \<Rightarrow> char" where
  "digit_char d = ''0123456789'' ! d"

fun show_nat :: "nat \<Rightarrow> string" where
  "show_nat n = (if n < 10 then [digit_char n] else show_nat (n div 10) @ [digit_char (n mod 10)])"

declare show_nat.simps [simp del]

definition now_timestamp_str :: "env \<Rightarrow> string prog" where
  "now_timestamp_str e s = (Inr (show_nat (clock_secs e) @ ''.'' @ clock_frac e), log Now s)"

text \<open>\<^verbatim>\<open>s.split('.')[0]\<close>.\<close>

definition split_dot0 :: "string \<Rightarrow> string" where
  "split_dot0 s = takeWhile (\<lambda>c. c \<noteq> CHR ''.'') s"

subsection \<open>The modules \<^verbatim>\<open>danesfield.metrics\<close> and \<^verbatim>\<open>core3dmetrics\<close>\<close>

text \<open>
  Modelled from the spec: \<^verbatim>\<open>danesfield.metrics.coordinate_system.get_coordinate_system\<close>
  is not among the sources. The spec's resolver returns the descriptor of the raster's
  coordinate system, changes nothing, and fails with \<open>UnreadableRasterError\<close> when the
  file cannot be opened as a raster or carries no coordinate system.
\<close>

definition crs_of :: "env \<Rightarrow> filesystem \<Rightarrow> path \<Rightarrow> string option" where
  "crs_of e f p =
     (case lookup e f p of
        Some (File (Raster r)) \<Rightarrow> crs r
      | _ \<Rightarrow> None)"

definition get_coordinate_system :: "env \<Rightarrow> path \<Rightarrow> string prog" where
  "get_coordinate_system e p s =
     (case crs_of e (fs s) p of
        Some c \<Rightarrow> (Inr c, log (GetCoordinateSystem p (Some c)) s)
      | None \<Rightarrow> (Inl (UnreadableRasterError p), log (GetCoordinateSystem p None) s))"

text \<open>
  Modelled from the spec: \<^verbatim>\<open>danesfield.metrics.coordinate_system.convert_coordinate_system\<close>
  is not among the sources. The spec's reprojector overwrites the raster at the path so
  that its coordinate system is the target, and fails with \<open>ReprojectionError\<close> when
  the raster has no coordinate system; a file that is no raster is unreadable. The
  target is always a descriptor obtained from the resolver, so a malformed target is
  not modelled.
\<close>

definition reproject_fs :: "env \<Rightarrow> filesystem \<Rightarrow> path \<Rightarrow> string \<Rightarrow> error + filesystem" where
  "reproject_fs e f p target =
     (case lookup e f p of
        Some (File (Raster r)) \<Rightarrow>
          (case crs r of
             None \<Rightarrow> Inl (ReprojectionError p)
           | Some c \<Rightarrow> Inr (f(resolve e p \<mapsto> File (Raster (r\<lparr>crs := Some target\<rparr>)))))
      | _ \<Rightarrow> Inl (UnreadableRasterError p))"

definition convert_coordinate_system :: "env \<Rightarrow> path \<Rightarrow> string \<Rightarrow> unit prog" where
  "convert_coordinate_system e p target s =
     (case reproject_fs e (fs s) p target of
        Inl err \<Rightarrow> (Inl err, log (ConvertCoordinateSystem p target) s)
      | Inr f \<Rightarrow> (Inr (), log (ConvertCoordinateSystem p target) (s\<lparr>fs := f\<rparr>)))"

text \<open>
  Modelled from the spec: \<^verbatim>\<open>danesfield.metrics.datatype.convert_float32\<close> is not among
  the sources. The spec's normalizer rewrites the raster to single precision, does
  nothing when it is single precision already, and fails with \<open>DtypeConversionError\<close>
  when the values cannot be narrowed.
\<close>

definition float32_fs :: "env \<Rightarrow> filesystem \<Rightarrow> path \<Rightarrow> error + filesystem" where
  "float32_fs e f p =
     (case lookup e f p of
        Some (File (Raster r)) \<Rightarrow>
          (if dtype r = Float32 then Inr f
           else if fits_float32 r then Inr (f(resolve e p \<mapsto> File (Raster (r\<lparr>dtype := Float32\<rparr>))))
           else Inl (DtypeConversionError p))
      | _ \<Rightarrow> Inl (UnreadableRasterError p))"

definition convert_float32 :: "env \<Rightarrow> path \<Rightarrow> unit prog" where
  "convert_float32 e p s =
     (case float32_fs e (fs s) p of
        Inl err \<Rightarrow> (Inl err, log (ConvertFloat32 p) s)
      | Inr f \<Rightarrow> (Inr (), log (ConvertFloat32 p) (s\<lparr>fs := f\<rparr>)))"

text \<open>
  Modelled from the spec: \<^verbatim>\<open>danesfield.metrics.config\<close> is not among the sources. Its
  template and its file-name rule are parameters of the environment. The spec's builder
  puts each path in the place of its hole, an empty string for an optional input that
  was not supplied, and fails with \<open>TemplateError\<close> when the template lacks a hole.
\<close>

definition config_get_template :: "env \<Rightarrow> (token list) prog" where
  "config_get_template e s = (Inr (template e), log GetTemplate s)"

fun fill :: "string \<Rightarrow> string \<Rightarrow> string \<Rightarrow> string \<Rightarrow> string \<Rightarrow> token \<Rightarrow> string" where
  "fill ref_prefix test_dsm test_cls test_mtl test_dtm (Lit t) = t"
| "fill ref_prefix test_dsm test_cls test_mtl test_dtm (Hole RefPrefix) = ref_prefix"
| "fill ref_prefix test_dsm test_cls test_mtl test_dtm (Hole TestDSM) = test_dsm"
| "fill ref_prefix test_dsm test_cls test_mtl test_dtm (Hole TestCLS) = test_cls"
| "fill ref_prefix test_dsm test_cls test_mtl test_dtm (Hole TestMTL) = test_mtl"
| "fill ref_prefix test_dsm test_cls test_mtl test_dtm (Hole TestDTM) = test_dtm"

definition populate :: "token list \<Rightarrow> string \<Rightarrow> string \<Rightarrow> string \<Rightarrow> string \<Rightarrow> string \<Rightarrow> error + string" where
  "populate contents ref_prefix test_dsm test_cls test_mtl test_dtm =
     (if list_all (\<lambda>h. Hole h \<in> set contents) [RefPrefix, TestDSM, TestCLS, TestMTL, TestDTM]
      then Inr (concat (map (fill ref_prefix test_dsm test_cls test_mtl test_dtm) contents))
      else Inl TemplateError)"

definition config_populate_template ::
  "token list \<Rightarrow> string \<Rightarrow> string \<Rightarrow> string \<Rightarrow> string \<Rightarrow> string \<Rightarrow> string prog" where
  "config_populate_template contents ref_prefix test_dsm test_cls test_mtl test_dtm s =
     (populate contents ref_prefix test_dsm test_cls test_mtl test_dtm,
      log (PopulateTemplate contents ref_prefix test_dsm test_cls test_mtl test_dtm) s)"

definition config_get_filename :: "env \<Rightarrow> string \<Rightarrow> string \<Rightarrow> string prog" where
  "config_get_filename e test_dsm test_cls s =
     (Inr (filename_rule e test_dsm test_cls), log (GetFilename test_dsm test_cls) s)"

text \<open>
  \<^verbatim>\<open>core3dmetrics.main(argv)\<close> is an external package. Only the call and whether it
  completes are modelled; what the engine writes is outside the model.
\<close>

definition core3dmetrics_main :: "env \<Rightarrow> string list \<Rightarrow> unit prog" where
  "core3dmetrics_main e argv s =
     (if engine_ok e argv then Inr () else Inl EngineInvocationError,
      log (Core3dMetrics argv) s)"

subsection \<open>The script\<close>

text \<open>\<^verbatim>\<open>create_working_dir()\<close>, lines 26 to 33.\<close>

definition create_working_dir :: "env \<Rightarrow> string prog" where
  "create_working_dir e =
     bind (now_timestamp_str e) (\<lambda>ts.
     let working_dir = ''metrics-'' @ split_dot0 ts in
     bind (os_mkdir e working_dir) (\<lambda>_.
     ret working_dir))"

text \<open>\<^verbatim>\<open>generate_config_file(...)\<close>, lines 36 to 52.\<close>

definition generate_config_file ::
  "env \<Rightarrow> string \<Rightarrow> string \<Rightarrow> string \<Rightarrow> string \<Rightarrow> string \<Rightarrow> string \<Rightarrow> string prog" where
  "generate_config_file e working_dir ref_prefix test_dsm test_cls test_mtl test_dtm =
     bind (config_get_template e) (\<lambda>contents.
     bind (config_populate_template contents ref_prefix test_dsm test_cls test_mtl test_dtm) (\<lambda>contents.
     bind (config_get_filename e test_dsm test_cls) (\<lambda>name.
     let config_filename = os_path_join working_dir name in
     bind (write_file e config_filename contents) (\<lambda>_.
     ret config_filename))))"

text \<open>The parsed command line: \<^verbatim>\<open>--output-dir\<close>, \<^verbatim>\<open>--mtl\<close> and \<^verbatim>\<open>--dtm\<close> are optional.\<close>

record args =
  output_dir :: "string option"
  ref_dir :: string
  ref_prefix :: string
  dsm :: string
  cls :: string
  mtl :: "string option"
  dtm :: "string option"

text \<open>
  \<^verbatim>\<open>main\<close> after argument parsing, in the blocks the source's comments mark. Lines 96
  to 104: \<^verbatim>\<open>if args.output_dir:\<close> is false for \<^verbatim>\<open>None\<close> and for the empty string.
\<close>

definition main_working_dir :: "env \<Rightarrow> args \<Rightarrow> string prog" where
  "main_working_dir e a =
     (case output_dir a of
        None \<Rightarrow> create_working_dir e
      | Some d \<Rightarrow>
          if d \<noteq> [] then
            bind (os_path_exists e d) (\<lambda>present.
            bind (if \<not> present then os_makedirs e d else ret ()) (\<lambda>_.
            ret d))
          else create_working_dir e)"

text \<open>Lines 115 to 125, once for \<^verbatim>\<open>--mtl\<close> and once for \<^verbatim>\<open>--dtm\<close>.\<close>

definition copy_optional :: "env \<Rightarrow> string \<Rightarrow> string option \<Rightarrow> string prog" where
  "copy_optional e working_dir opt =
     (case opt of
        Some src \<Rightarrow>
          let staged = os_path_join working_dir (os_path_basename src) in
          bind (shutil_copyfile e src staged) (\<lambda>_.
          ret staged)
      | None \<Rightarrow> ret [])"

text \<open>Lines 108 to 125: the staged paths, and the copies.\<close>

definition main_copy_inputs :: "env \<Rightarrow> args \<Rightarrow> string \<Rightarrow> (string \<times> string \<times> string \<times> string) prog" where
  "main_copy_inputs e a working_dir =
     (let test_dsm = os_path_join working_dir (os_path_basename (dsm a));
          test_cls = os_path_join working_dir (os_path_basename (cls a)) in
      bind (shutil_copyfile e (dsm a) test_dsm) (\<lambda>_.
      bind (shutil_copyfile e (cls a) test_cls) (\<lambda>_.
      bind (copy_optional e working_dir (mtl a)) (\<lambda>test_mtl.
      bind (copy_optional e working_dir (dtm a)) (\<lambda>test_dtm.
      ret (test_dsm, test_cls, test_mtl, test_dtm))))))"

text \<open>Lines 134 to 140: \<^verbatim>\<open>if test_mtl:\<close> is false for the empty string only.\<close>

definition main_convert_coordinates ::
  "env \<Rightarrow> string \<Rightarrow> string \<Rightarrow> string \<Rightarrow> string \<Rightarrow> string \<Rightarrow> unit prog" where
  "main_convert_coordinates e ref_dsm test_dsm test_cls test_mtl test_dtm =
     bind (get_coordinate_system e ref_dsm) (\<lambda>ref_proj4.
     bind (convert_coordinate_system e test_dsm ref_proj4) (\<lambda>_.
     bind (convert_coordinate_system e test_cls ref_proj4) (\<lambda>_.
     bind (if test_mtl \<noteq> [] then convert_coordinate_system e test_mtl ref_proj4 else ret ()) (\<lambda>_.
     if test_dtm \<noteq> [] then convert_coordinate_system e test_dtm ref_proj4 else ret ()))))"

text \<open>\<^verbatim>\<open>main(args)\<close>, lines 96 to 153.\<close>

definition main :: "env \<Rightarrow> args \<Rightarrow> unit prog" where
  "main e a =
     bind (main_working_dir e a) (\<lambda>working_dir.
     let ref_dsm = os_path_join (ref_dir a) (ref_prefix a @ ''-DSM.tif'') in
     bind (main_copy_inputs e a working_dir) (\<lambda>(test_dsm, test_cls, test_mtl, test_dtm).
     bind (generate_config_file e working_dir (ref_prefix a) test_dsm test_cls test_mtl test_dtm)
       (\<lambda>config_filename.
     bind (main_convert_coordinates e ref_dsm test_dsm test_cls test_mtl test_dtm) (\<lambda>_.
     bind (convert_float32 e test_dsm) (\<lambda>_.
     core3dmetrics_main e
       [''--config'', config_filename,
        ''--reference'', ref_dir a,
        ''--test'', working_dir,
        ''--output'', working_dir])))))"

text \<open>An invocation starts with an empty call log.\<close>

definition run :: "env \<Rightarrow> args \<Rightarrow> filesystem \<Rightarrow> (error + unit) \<times> state" where
  "run e a f = main e a \<lparr>fs = f, trace = []\<rparr>"

definition outcome :: "env \<Rightarrow> args \<Rightarrow> filesystem \<Rightarrow> error + unit" where
  "outcome e a f = fst (run e a f)"

definition calls :: "env \<Rightarrow> args \<Rightarrow> filesystem \<Rightarrow> call list" where
  "calls e a f = trace (snd (run e a f))"

definition final_fs :: "env \<Rightarrow> args \<Rightarrow> filesystem \<Rightarrow> filesystem" where
  "final_fs e a f = fs (snd (run e a f))"

subsection \<open>The values of the script's variables\<close>

text \<open>
  The working directory, the staged paths and the config path are determined by the
  command line and the clock. The definitions below are the right-hand sides of the
  script's assignments: \<^verbatim>\<open>working_dir\<close> (lines 31 and 102), \<^verbatim>\<open>ref_dsm\<close>,
  \<^verbatim>\<open>test_dsm\<close> and \<^verbatim>\<open>test_cls\<close> (lines 107 to 109), \<^verbatim>\<open>test_mtl\<close> and
  \<^verbatim>\<open>test_dtm\<close> (lines 116 to 125), \<^verbatim>\<open>config_filename\<close> (line 48) and the text
  written to it (line 42).
\<close>

definition timestamp_dir :: "env \<Rightarrow> string" where
  "timestamp_dir e = ''metrics-'' @ show_nat (clock_secs e)"

definition working_dir :: "env \<Rightarrow> args \<Rightarrow> string" where
  "working_dir e a =
     (case output_dir a of
        None \<Rightarrow> ''metrics-'' @ show_nat (clock_secs e)
      | Some d \<Rightarrow> if d \<noteq> [] then d else ''metrics-'' @ show_nat (clock_secs e))"

definition test_dsm :: "env \<Rightarrow> args \<Rightarrow> string" where
  "test_dsm e a = os_path_join (working_dir e a) (os_path_basename (dsm a))"

definition test_cls :: "env \<Rightarrow> args \<Rightarrow> string" where
  "test_cls e a = os_path_join (working_dir e a) (os_path_basename (cls a))"

definition staged_opt :: "env \<Rightarrow> args \<Rightarrow> string option \<Rightarrow> string" where
  "staged_opt e a opt =
     (case opt of
        None \<Rightarrow> []
      | Some src \<Rightarrow> os_path_join (working_dir e a) (os_path_basename src))"

definition test_mtl :: "env \<Rightarrow> args \<Rightarrow> string" where
  "test_mtl e a = staged_opt e a (mtl a)"

definition test_dtm :: "env \<Rightarrow> args \<Rightarrow> string" where
  "test_dtm e a = staged_opt e a (dtm a)"

definition ref_dsm :: "args \<Rightarrow> string" where
  "ref_dsm a = os_path_join (ref_dir a) (ref_prefix a @ ''-DSM.tif'')"

definition config_filename :: "env \<Rightarrow> args \<Rightarrow> string" where
  "config_filename e a =
     os_path_join (working_dir e a) (filename_rule e (test_dsm e a) (test_cls e a))"

definition config_text :: "env \<Rightarrow> args \<Rightarrow> error + string" where
  "config_text e a =
     populate (template e) (ref_prefix a) (test_dsm e a) (test_cls e a) (test_mtl e a) (test_dtm e a)"

text \<open>
  The inputs given on the command line, in the order the script copies them, and the
  staged path of an input.
\<close>

definition supplied :: "args \<Rightarrow> string list" where
  "supplied a =
     [dsm a, cls a]
     @ (case mtl a of None \<Rightarrow> [] | Some src \<Rightarrow> [src])
     @ (case dtm a of None \<Rightarrow> [] | Some src \<Rightarrow> [src])"

definition staged :: "env \<Rightarrow> args \<Rightarrow> string \<Rightarrow> string" where
  "staged e a src = os_path_join (working_dir e a) (os_path_basename src)"

text \<open>
  The paths a run may write to, as keys of the file system: the staged paths and the
  config path.
\<close>

definition written :: "env \<Rightarrow> args \<Rightarrow> key set" where
  "written e a = resolve e ` (staged e a ` set (supplied a) \<union> {config_filename e a})"

text \<open>Lines 106 to 153: the rest of \<^verbatim>\<open>main\<close> once the working directory is known.\<close>

definition main_after_working_dir :: "env \<Rightarrow> args \<Rightarrow> string \<Rightarrow> unit prog" where
  "main_after_working_dir e a wd =
     (let ref_dsm = os_path_join (ref_dir a) (ref_prefix a @ ''-DSM.tif'') in
      bind (main_copy_inputs e a wd) (\<lambda>(d, c, m, t).
      bind (generate_config_file e wd (ref_prefix a) d c m t) (\<lambda>config_filename.
      bind (main_convert_coordinates e ref_dsm d c m t) (\<lambda>_.
      bind (convert_float32 e d) (\<lambda>_.
      core3dmetrics_main e
        [''--config'', config_filename,
         ''--reference'', ref_dir a,
         ''--test'', wd,
         ''--output'', wd])))))"

subsection \<open>The steps and their calls\<close>

text \<open>
  The step a call belongs to: the working directory (1), staging (2), the config
  document (3), the reference coordinate system (4), reprojection (5), the pixel type
  (6), the engine (7).
\<close>

fun stage_of :: "call \<Rightarrow> nat" where
  "stage_of (PathExists p) = 1"
| "stage_of (Makedirs p) = 1"
| "stage_of Now = 1"
| "stage_of (Mkdir p) = 1"
| "stage_of (Copyfile src dst) = 2"
| "stage_of GetTemplate = 3"
| "stage_of (PopulateTemplate t r d c m x) = 3"
| "stage_of (GetFilename d c) = 3"
| "stage_of (OpenWrite p c) = 3"
| "stage_of (GetCoordinateSystem p r) = 4"
| "stage_of (ConvertCoordinateSystem p t) = 5"
| "stage_of (ConvertFloat32 p) = 6"
| "stage_of (Core3dMetrics argv) = 7"

fun is_copy :: "call \<Rightarrow> bool" where
  "is_copy (Copyfile src dst) = True"
| "is_copy _ = False"

fun is_reproject :: "call \<Rightarrow> bool" where
  "is_reproject (ConvertCoordinateSystem p t) = True"
| "is_reproject _ = False"


fun is_engine :: "call \<Rightarrow> bool" where
  "is_engine (Core3dMetrics argv) = True"
| "is_engine _ = False"

text \<open>The two kinds of error that staging and the raster operations raise.\<close>

fun os_error :: "error \<Rightarrow> bool" where
  "os_error (FileNotFoundError p) = True"
| "os_error (FileExistsError p) = True"
| "os_error (IsADirectoryError p) = True"
| "os_error (NotADirectoryError p) = True"
| "os_error (SameFileError p q) = True"
| "os_error _ = False"

fun raster_error :: "error \<Rightarrow> bool" where
  "raster_error (UnreadableRasterError p) = True"
| "raster_error (ReprojectionError p) = True"
| "raster_error (DtypeConversionError p) = True"
| "raster_error _ = False"

text \<open>
  The calls each step makes when nothing fails, with the values above as arguments.
\<close>

definition dir_calls :: "env \<Rightarrow> args \<Rightarrow> filesystem \<Rightarrow> call list" where
  "dir_calls e a f =
     (case output_dir a of
        None \<Rightarrow> [Now, Mkdir (working_dir e a)]
      | Some d \<Rightarrow>
          if d \<noteq> [] then (if lookup e f d \<noteq> None then [PathExists d] else [PathExists d, Makedirs d])
          else [Now, Mkdir (working_dir e a)])"

definition copy_opt_calls :: "env \<Rightarrow> args \<Rightarrow> string option \<Rightarrow> call list" where
  "copy_opt_calls e a opt =
     (case opt of
        None \<Rightarrow> []
      | Some src \<Rightarrow> [Copyfile src (staged_opt e a opt)])"

definition copy_calls :: "env \<Rightarrow> args \<Rightarrow> call list" where
  "copy_calls e a =
     [Copyfile (dsm a) (test_dsm e a), Copyfile (cls a) (test_cls e a)]
     @ copy_opt_calls e a (mtl a) @ copy_opt_calls e a (dtm a)"

definition render_calls :: "env \<Rightarrow> args \<Rightarrow> call list" where
  "render_calls e a =
     [GetTemplate,
      PopulateTemplate (template e) (ref_prefix a) (test_dsm e a) (test_cls e a) (test_mtl e a) (test_dtm e a)]"

definition config_calls :: "env \<Rightarrow> args \<Rightarrow> string \<Rightarrow> call list" where
  "config_calls e a contents =
     render_calls e a
     @ [GetFilename (test_dsm e a) (test_cls e a), OpenWrite (config_filename e a) contents]"

definition reproject_opt_calls :: "string \<Rightarrow> string \<Rightarrow> call list" where
  "reproject_opt_calls p c = (if p \<noteq> [] then [ConvertCoordinateSystem p c] else [])"

definition reproject_calls :: "env \<Rightarrow> args \<Rightarrow> string \<Rightarrow> call list" where
  "reproject_calls e a c =
     [ConvertCoordinateSystem (test_dsm e a) c, ConvertCoordinateSystem (test_cls e a) c]
     @ reproject_opt_calls (test_mtl e a) c @ reproject_opt_calls (test_dtm e a) c"

definition engine_call :: "env \<Rightarrow> args \<Rightarrow> call" where
  "engine_call e a =
     Core3dMetrics
       [''--config'', config_filename e a,
        ''--reference'', ref_dir a,
        ''--test'', working_dir e a,
        ''--output'', working_dir e a]"

subsection \<open>What a step leaves in place\<close>

text \<open>
  \<open>kept W f f'\<close>: going from \<open>f\<close> to \<open>f'\<close>, a directory stays a directory, a file
  stays a file, and outside the keys \<open>W\<close> nothing changes except that directories may
  appear. \<open>keeps W m\<close>: the program \<open>m\<close> does so from every state.
\<close>

definition kept :: "key set \<Rightarrow> filesystem \<Rightarrow> filesystem \<Rightarrow> bool" where
  "kept W f f' =
     (\<forall>k. (f k = Some Dir \<longrightarrow> f' k = Some Dir) \<and>
          (\<forall>c. f k = Some (File c) \<longrightarrow> (\<exists>c'. f' k = Some (File c'))) \<and>
          (k \<notin> W \<longrightarrow> f' k = f k \<or> (f k = None \<and> f' k = Some Dir)))"

definition keeps :: "key set \<Rightarrow> 'a prog \<Rightarrow> bool" where
  "keeps W m = (\<forall>s r s'. m s = (r, s') \<longrightarrow> kept W (fs s) (fs s'))"

subsection \<open>Concrete runs\<close>

text \<open>
  A reference directory with its DSM in UTM, a test DSM in double precision, a test CLS
  and a test MTL in geographic coordinates, and an output directory yet to be created.
\<close>

definition demo_env :: env where
  "demo_env =
     \<lparr>cwd = [''home''], clock_secs = 1730000000, clock_frac = ''25'',
      template = [Lit ''ref='', Hole RefPrefix, Lit '' dsm='', Hole TestDSM,
                  Lit '' cls='', Hole TestCLS, Lit '' mtl='', Hole TestMTL,
                  Lit '' dtm='', Hole TestDTM],
      filename_rule = (\<lambda>d c. os_path_basename d @ ''_'' @ os_path_basename c @ ''.config''),
      engine_ok = (\<lambda>argv. True)\<rparr>"

definition utm_float32 :: raster where
  "utm_float32 = \<lparr>crs = Some ''utm17'', dtype = Float32, fits_float32 = True\<rparr>"

definition wgs_float64 :: raster where
  "wgs_float64 = \<lparr>crs = Some ''wgs84'', dtype = Float64, fits_float32 = True\<rparr>"

definition wgs_byte :: raster where
  "wgs_byte = \<lparr>crs = Some ''wgs84'', dtype = Byte, fits_float32 = True\<rparr>"

definition demo_fs :: filesystem where
  "demo_fs =
     [[''home''] \<mapsto> Dir,
      [''home'', ''ref''] \<mapsto> Dir,
      [''home'', ''ref'', ''AOI-DSM.tif''] \<mapsto> File (Raster utm_float32),
      [''home'', ''in''] \<mapsto> Dir,
      [''home'', ''in'', ''d.tif''] \<mapsto> File (Raster wgs_float64),
      [''home'', ''in'', ''c.tif''] \<mapsto> File (Raster wgs_byte),
      [''home'', ''in'', ''m.tif''] \<mapsto> File (Raster wgs_byte)]"

definition demo_args :: args where
  "demo_args =
     \<lparr>output_dir = Some ''out'', ref_dir = ''ref'', ref_prefix = ''AOI'',
      dsm = ''in/d.tif'', cls = ''in/c.tif'', mtl = Some ''in/m.tif'', dtm = None\<rparr>"


text \<open>No output directory is given, and a second clock reading in the same second.\<close>

definition stamp_args :: args where
  "stamp_args = demo_args\<lparr>output_dir := None\<rparr>"

definition later_env :: env where
  "later_env = demo_env\<lparr>clock_frac := ''75''\<rparr>"







section \<open>What the calls of a run look like\<close>

lemma bindE:
  assumes "bind m f s = (r, s')"
  obtains (failed) err where "m s = (Inl err, s')" "r = Inl err"
        | (passed) x s1 where "m s = (Inr x, s1)" "f x s1 = (r, s')"
  using assms by (auto simp: bind_def split: prod.splits sum.splits)

lemma digit_char_not_dot: "d < 10 \<Longrightarrow> digit_char d \<noteq> CHR ''.''"
proof -
  assume "d < 10"
  then have "d \<in> {0, 1, 2, 3, 4, 5, 6, 7, 8, 9}" by auto
  then show ?thesis by (auto simp: digit_char_def)
qed

lemma show_nat_no_dot: "CHR ''.'' \<notin> set (show_nat n)"
proof (induction n rule: show_nat.induct)
  case (1 n)
  show ?case
  proof (cases "n < 10")
    case True
    then show ?thesis using digit_char_not_dot [of n] by (subst show_nat.simps) auto
  next
    case False
    have "n mod 10 < 10" by simp
    then have "digit_char (n mod 10) \<noteq> CHR ''.''" by (rule digit_char_not_dot)
    with False 1 show ?thesis by (subst show_nat.simps) auto
  qed
qed

lemma split_dot0_timestamp: "split_dot0 (show_nat n @ CHR ''.'' # frac) = show_nat n"
proof -
  have "\<forall>c \<in> set (show_nat n). c \<noteq> CHR ''.''"
    using show_nat_no_dot [of n] by auto
  then show ?thesis by (simp add: split_dot0_def)
qed

lemma os_mkdir_run:
  "os_mkdir e p s = (r, s') \<Longrightarrow>
     trace s' = trace s @ [Mkdir p] \<and> (r = Inr () \<or> (\<exists>err. r = Inl err \<and> os_error err))"
  by (auto simp: os_mkdir_def mkdir_fs_def parent_error_def log_def
           split: sum.splits if_splits option.splits node.splits)

lemma os_makedirs_error: "make_path f k cs p = (Some err, f') \<Longrightarrow> os_error err"
  by (induction f k cs p rule: make_path.induct) (auto split: option.splits node.splits)

lemma os_makedirs_run:
  "os_makedirs e p s = (r, s') \<Longrightarrow>
     trace s' = trace s @ [Makedirs p] \<and> (r = Inr () \<or> (\<exists>err. r = Inl err \<and> os_error err))"
  by (auto simp: os_makedirs_def makedirs_fs_def log_def dest: os_makedirs_error
           split: prod.splits option.splits if_splits)

lemma trace_log [simp]: "trace (log c s) = trace s @ [c]"
  by (simp add: log_def)

lemma fs_log [simp]: "fs (log c s) = fs s"
  by (simp add: log_def)

lemma bind_ret [simp]: "bind (ret x) f s = f x s"
  by (simp add: bind_def ret_def)

lemma bind_now [simp]:
  "bind (now_timestamp_str e) f s = f (show_nat (clock_secs e) @ ''.'' @ clock_frac e) (log Now s)"
  by (simp add: bind_def now_timestamp_str_def)

lemma bind_exists [simp]:
  "bind (os_path_exists e p) f s = f (lookup e (fs s) p \<noteq> None) (log (PathExists p) s)"
  by (simp add: bind_def os_path_exists_def)

lemma create_working_dir_run:
  "create_working_dir e s = (r, s') \<Longrightarrow>
     trace s' = trace s @ [Now, Mkdir (''metrics-'' @ show_nat (clock_secs e))] \<and>
     (r = Inr (''metrics-'' @ show_nat (clock_secs e)) \<or> (\<exists>err. r = Inl err \<and> os_error err))"
  by (auto simp: create_working_dir_def Let_def split_dot0_timestamp ret_def
           elim!: bindE dest!: os_mkdir_run)

lemma main_working_dir_run:
  "main_working_dir e a s = (r, s') \<Longrightarrow>
     trace s' = trace s @ dir_calls e a (fs s) \<and>
     (r = Inr (working_dir e a) \<or> (\<exists>err. r = Inl err \<and> os_error err))"
  by (auto simp: main_working_dir_def dir_calls_def working_dir_def ret_def
           split: option.splits if_splits
           elim!: bindE dest!: os_makedirs_run create_working_dir_run)


lemma shutil_copyfile_run:
  "shutil_copyfile e src dst s = (r, s') \<Longrightarrow>
     trace s' = trace s @ [Copyfile src dst] \<and> (r = Inr () \<or> (\<exists>err. r = Inl err \<and> os_error err))"
  by (auto simp: shutil_copyfile_def copyfile_fs_def open_w_def parent_error_def
           split: sum.splits if_splits option.splits node.splits)

lemma copy_optional_run:
  "copy_optional e (working_dir e a) opt s = (r, s') \<Longrightarrow>
     trace s' = trace s @ copy_opt_calls e a opt \<and>
     (r = Inr (staged_opt e a opt) \<or> (\<exists>err. r = Inl err \<and> os_error err \<and> opt \<noteq> None))"
  by (auto simp: copy_optional_def copy_opt_calls_def staged_opt_def Let_def ret_def
           split: option.splits elim!: bindE dest!: shutil_copyfile_run)

lemma main_copy_inputs_run:
  "main_copy_inputs e a (working_dir e a) s = (r, s') \<Longrightarrow>
     \<exists>cs. trace s' = trace s @ cs \<and> cs \<noteq> [] \<and> prefix cs (copy_calls e a) \<and>
          ((r = Inr (test_dsm e a, test_cls e a, test_mtl e a, test_dtm e a) \<and> cs = copy_calls e a)
           \<or> (\<exists>err. r = Inl err \<and> os_error err))"
  unfolding main_copy_inputs_def Let_def
proof (erule bindE, goal_cases)
  case (1 err)
  then show ?case
    by (auto simp: copy_calls_def test_dsm_def dest!: shutil_copyfile_run)
next
  case (2 x s1)
  from 2(1) have t1: "trace s1 = trace s @ [Copyfile (dsm a) (test_dsm e a)]"
    by (auto simp: test_dsm_def dest!: shutil_copyfile_run)
  from 2(2) show ?case
  proof (rule bindE, goal_cases)
    case (1 err)
    then show ?case using t1
      by (auto simp: copy_calls_def test_cls_def dest!: shutil_copyfile_run)
  next
    case (2 y s2)
    from 2(1) have t2: "trace s2 = trace s @ [Copyfile (dsm a) (test_dsm e a), Copyfile (cls a) (test_cls e a)]"
      using t1 by (auto simp: test_cls_def dest!: shutil_copyfile_run)
    from 2(2) show ?case
    proof (rule bindE, goal_cases)
      case (1 err)
      then show ?case using t2
        by (auto simp: copy_calls_def dest!: copy_optional_run)
    next
      case (2 m s3)
      from 2(1) have t3: "trace s3 = trace s2 @ copy_opt_calls e a (mtl a)" and m: "m = test_mtl e a"
        by (auto simp: test_mtl_def dest!: copy_optional_run)
      from 2(2) show ?case
      proof (rule bindE, goal_cases)
        case (1 err)
        then show ?case using t2 t3
          by (auto simp: copy_calls_def dest!: copy_optional_run)
      next
        case (2 d s4)
        then show ?case using t2 t3 m
          by (auto simp: copy_calls_def ret_def test_dtm_def test_dsm_def test_cls_def
                   dest!: copy_optional_run)
      qed
    qed
  qed
qed


lemma bind_get_template [simp]:
  "bind (config_get_template e) f s = f (template e) (log GetTemplate s)"
  by (simp add: bind_def config_get_template_def)

lemma bind_get_filename [simp]:
  "bind (config_get_filename e d c) f s = f (filename_rule e d c) (log (GetFilename d c) s)"
  by (simp add: bind_def config_get_filename_def)

lemma bind_populate_template [simp]:
  "bind (config_populate_template t r d c m x) f s =
     (case populate t r d c m x of
        Inl err \<Rightarrow> (Inl err, log (PopulateTemplate t r d c m x) s)
      | Inr y \<Rightarrow> f y (log (PopulateTemplate t r d c m x) s))"
  by (simp add: bind_def config_populate_template_def split: sum.splits)

lemma populate_error: "populate t r d c m x = Inl err \<Longrightarrow> err = TemplateError"
  by (auto simp: populate_def split: if_splits)

lemma write_file_run:
  "write_file e p c s = (r, s') \<Longrightarrow>
     trace s' = trace s @ [OpenWrite p c] \<and> (r = Inr () \<or> (\<exists>err. r = Inl err \<and> os_error err))"
  by (auto simp: write_file_def open_w_def parent_error_def
           split: sum.splits if_splits option.splits node.splits)

lemma generate_config_file_run:
  assumes "generate_config_file e (working_dir e a) (ref_prefix a)
             (test_dsm e a) (test_cls e a) (test_mtl e a) (test_dtm e a) s = (r, s')"
  shows "(config_text e a = Inl TemplateError \<and> r = Inl TemplateError \<and>
          trace s' = trace s @ render_calls e a)
         \<or> (\<exists>c. config_text e a = Inr c \<and> trace s' = trace s @ config_calls e a c \<and>
               (r = Inr (config_filename e a) \<or> (\<exists>err. r = Inl err \<and> os_error err)))"
proof (cases "config_text e a")
  case (Inl err)
  then have "err = TemplateError"
    by (auto simp: config_text_def dest: populate_error)
  with Inl assms show ?thesis
    by (auto simp: generate_config_file_def config_text_def render_calls_def)
next
  case (Inr c)
  with assms show ?thesis
    by (auto simp: generate_config_file_def Let_def config_text_def render_calls_def
                   config_calls_def config_filename_def ret_def
             elim!: bindE dest!: write_file_run)
qed

lemma convert_coordinate_system_run:
  "convert_coordinate_system e p c s = (r, s') \<Longrightarrow>
     trace s' = trace s @ [ConvertCoordinateSystem p c] \<and>
     (r = Inr () \<or> (\<exists>err. r = Inl err \<and> raster_error err))"
  by (auto simp: convert_coordinate_system_def reproject_fs_def
           split: sum.splits if_splits option.splits node.splits content.splits)

lemma reproject_opt_run:
  "(if p \<noteq> [] then convert_coordinate_system e p c else ret ()) s = (r, s') \<Longrightarrow>
     trace s' = trace s @ reproject_opt_calls p c \<and>
     (r = Inr () \<or> (\<exists>err. r = Inl err \<and> raster_error err \<and> p \<noteq> []))"
  by (auto simp: reproject_opt_calls_def ret_def split: if_splits dest!: convert_coordinate_system_run)

lemma get_coordinate_system_run:
  "get_coordinate_system e p s = (r, s') \<Longrightarrow>
     fs s' = fs s \<and>
     ((crs_of e (fs s) p = None \<and> r = Inl (UnreadableRasterError p) \<and>
       trace s' = trace s @ [GetCoordinateSystem p None])
      \<or> (\<exists>c. crs_of e (fs s) p = Some c \<and> r = Inr c \<and>
            trace s' = trace s @ [GetCoordinateSystem p (Some c)]))"
  by (auto simp: get_coordinate_system_def split: option.splits)

lemma main_convert_coordinates_run:
  "main_convert_coordinates e ref (test_dsm e a) (test_cls e a) (test_mtl e a) (test_dtm e a) s = (r, s') \<Longrightarrow>
     (r = Inl (UnreadableRasterError ref) \<and> trace s' = trace s @ [GetCoordinateSystem ref None])
     \<or> (\<exists>c cs. trace s' = trace s @ GetCoordinateSystem ref (Some c) # cs \<and> cs \<noteq> [] \<and>
            prefix cs (reproject_calls e a c) \<and>
            ((r = Inr () \<and> cs = reproject_calls e a c) \<or> (\<exists>err. r = Inl err \<and> raster_error err)))"
  unfolding main_convert_coordinates_def
proof (erule bindE, goal_cases)
  case (1 err)
  then show ?case by (auto dest!: get_coordinate_system_run)
next
  case (2 c s1)
  from 2(1) have t1: "trace s1 = trace s @ [GetCoordinateSystem ref (Some c)]"
    by (auto dest!: get_coordinate_system_run)
  from 2(2) show ?case
  proof (rule bindE, goal_cases)
    case (1 err)
    then show ?case using t1
      by (auto simp: reproject_calls_def dest!: convert_coordinate_system_run)
  next
    case (2 x s2)
    from 2(1) have t2: "trace s2 = trace s1 @ [ConvertCoordinateSystem (test_dsm e a) c]"
      by (auto dest!: convert_coordinate_system_run)
    from 2(2) show ?case
    proof (rule bindE, goal_cases)
      case (1 err)
      then show ?case using t1 t2
        by (auto simp: reproject_calls_def dest!: convert_coordinate_system_run)
    next
      case (2 y s3)
      from 2(1) have t3: "trace s3 = trace s2 @ [ConvertCoordinateSystem (test_cls e a) c]"
        by (auto dest!: convert_coordinate_system_run)
      from 2(2) show ?case
      proof (rule bindE, goal_cases)
        case (1 err)
        then show ?case using t1 t2 t3
          by (auto simp: reproject_calls_def dest!: reproject_opt_run)
      next
        case (2 z s4)
        from 2(1) have t4: "trace s4 = trace s3 @ reproject_opt_calls (test_mtl e a) c"
          by (auto dest!: reproject_opt_run)
        from 2(2) show ?case using t1 t2 t3 t4
          by (auto simp: reproject_calls_def dest!: reproject_opt_run)
      qed
    qed
  qed
qed

lemma convert_float32_run:
  "convert_float32 e p s = (r, s') \<Longrightarrow>
     trace s' = trace s @ [ConvertFloat32 p] \<and>
     (r = Inr () \<or> (\<exists>err. r = Inl err \<and> raster_error err))"
  by (auto simp: convert_float32_def float32_fs_def
           split: sum.splits if_splits option.splits node.splits content.splits)

lemma core3dmetrics_main_run:
  "core3dmetrics_main e argv s = (r, s') \<Longrightarrow>
     trace s' = trace s @ [Core3dMetrics argv] \<and> fs s' = fs s \<and>
     (r = Inr () \<or> r = Inl EngineInvocationError)"
  by (auto simp: core3dmetrics_main_def split: if_splits)


lemma run_cases [case_names dir_failed copy_failed template_failed write_failed resolve_failed
    reproject_failed float32_failed engine_failed succeeded]:
  obtains
    (dir_failed) err where
      "outcome e a f = Inl err" "os_error err"
      "calls e a f = dir_calls e a f"
  | (copy_failed) err cs where
      "outcome e a f = Inl err" "os_error err" "cs \<noteq> []" "prefix cs (copy_calls e a)"
      "calls e a f = dir_calls e a f @ cs"
  | (template_failed)
      "outcome e a f = Inl TemplateError" "config_text e a = Inl TemplateError"
      "calls e a f = dir_calls e a f @ copy_calls e a @ render_calls e a"
  | (write_failed) err c where
      "outcome e a f = Inl err" "os_error err" "config_text e a = Inr c"
      "calls e a f = dir_calls e a f @ copy_calls e a @ config_calls e a c"
  | (resolve_failed) c where
      "outcome e a f = Inl (UnreadableRasterError (ref_dsm a))" "config_text e a = Inr c"
      "calls e a f = dir_calls e a f @ copy_calls e a @ config_calls e a c
                     @ [GetCoordinateSystem (ref_dsm a) None]"
  | (reproject_failed) err c t cs where
      "outcome e a f = Inl err" "raster_error err" "config_text e a = Inr c"
      "cs \<noteq> []" "prefix cs (reproject_calls e a t)"
      "calls e a f = dir_calls e a f @ copy_calls e a @ config_calls e a c
                     @ GetCoordinateSystem (ref_dsm a) (Some t) # cs"
  | (float32_failed) err c t where
      "outcome e a f = Inl err" "raster_error err" "config_text e a = Inr c"
      "calls e a f = dir_calls e a f @ copy_calls e a @ config_calls e a c
                     @ GetCoordinateSystem (ref_dsm a) (Some t) # reproject_calls e a t
                     @ [ConvertFloat32 (test_dsm e a)]"
  | (engine_failed) c t where
      "outcome e a f = Inl EngineInvocationError" "config_text e a = Inr c"
      "calls e a f = dir_calls e a f @ copy_calls e a @ config_calls e a c
                     @ GetCoordinateSystem (ref_dsm a) (Some t) # reproject_calls e a t
                     @ [ConvertFloat32 (test_dsm e a), engine_call e a]"
  | (succeeded) c t where
      "outcome e a f = Inr ()" "config_text e a = Inr c"
      "calls e a f = dir_calls e a f @ copy_calls e a @ config_calls e a c
                     @ GetCoordinateSystem (ref_dsm a) (Some t) # reproject_calls e a t
                     @ [ConvertFloat32 (test_dsm e a), engine_call e a]"
proof -
  let ?s0 = "\<lparr>fs = f, trace = []\<rparr>"
  obtain r s' where run: "main e a ?s0 = (r, s')"
    by fastforce
  have oc: "outcome e a f = r" "calls e a f = trace s'"
    using run by (simp_all add: outcome_def calls_def run_def)
  from run [unfolded main_def] show thesis
  proof (rule bindE, goal_cases)
    case (1 err)
    from main_working_dir_run [OF 1(1)] 1(2) oc show thesis
      by (intro dir_failed [of err]) auto
  next
    case (2 wd s1)
    from main_working_dir_run [OF 2(1)]
    have wd: "wd = working_dir e a" and t1: "trace s1 = dir_calls e a f"
      by auto
    from 2(2) have "bind (main_copy_inputs e a (working_dir e a))
        (\<lambda>(test_dsm, test_cls, test_mtl, test_dtm).
          bind (generate_config_file e (working_dir e a) (ref_prefix a) test_dsm test_cls test_mtl test_dtm)
            (\<lambda>config_filename.
          bind (main_convert_coordinates e (ref_dsm a) test_dsm test_cls test_mtl test_dtm) (\<lambda>_.
          bind (convert_float32 e test_dsm) (\<lambda>_.
          core3dmetrics_main e
            [''--config'', config_filename, ''--reference'', ref_dir a,
             ''--test'', working_dir e a, ''--output'', working_dir e a])))) s1 = (r, s')"
      by (simp add: wd Let_def ref_dsm_def)
    then show thesis
    proof (rule bindE, goal_cases)
      case (1 err)
      from main_copy_inputs_run [OF 1(1)] 1(2) oc t1 show thesis
        by (auto intro: copy_failed [of err])
    next
      case (2 x s2)
      from main_copy_inputs_run [OF 2(1)]
      have x: "x = (test_dsm e a, test_cls e a, test_mtl e a, test_dtm e a)"
        and t2: "trace s2 = dir_calls e a f @ copy_calls e a"
        using t1 by auto
      from 2(2) have "bind (generate_config_file e (working_dir e a) (ref_prefix a)
            (test_dsm e a) (test_cls e a) (test_mtl e a) (test_dtm e a))
            (\<lambda>config_filename.
          bind (main_convert_coordinates e (ref_dsm a) (test_dsm e a) (test_cls e a)
                  (test_mtl e a) (test_dtm e a)) (\<lambda>_.
          bind (convert_float32 e (test_dsm e a)) (\<lambda>_.
          core3dmetrics_main e
            [''--config'', config_filename, ''--reference'', ref_dir a,
             ''--test'', working_dir e a, ''--output'', working_dir e a]))) s2 = (r, s')"
        by (simp add: x)
      then show thesis
      proof (rule bindE, goal_cases)
        case (1 err)
        from generate_config_file_run [OF 1(1)] 1(2) oc t2 show thesis
          by (auto intro: template_failed write_failed [of err])
      next
        case (2 cfg s3)
        from generate_config_file_run [OF 2(1)]
        obtain c where c: "config_text e a = Inr c" and cfg: "cfg = config_filename e a"
          and t3: "trace s3 = dir_calls e a f @ copy_calls e a @ config_calls e a c"
          using t2 by auto
        from 2(2) show thesis
        proof (rule bindE, goal_cases)
          case (1 err)
          from main_convert_coordinates_run [OF 1(1)] 1(2) oc t3 c show thesis
            by (auto intro: resolve_failed [of c] reproject_failed [of err c])
        next
          case (2 u s4)
          from main_convert_coordinates_run [OF 2(1)]
          obtain t where t4: "trace s4 = dir_calls e a f @ copy_calls e a @ config_calls e a c
              @ GetCoordinateSystem (ref_dsm a) (Some t) # reproject_calls e a t"
            using t3 by auto
          from 2(2) show thesis
          proof (rule bindE, goal_cases)
            case (1 err)
            from convert_float32_run [OF 1(1)] 1(2) oc t4 c show thesis
              by (auto intro: float32_failed [of err c t])
          next
            case (2 v s5)
            from convert_float32_run [OF 2(1)]
            have t5: "trace s5 = dir_calls e a f @ copy_calls e a @ config_calls e a c
                @ GetCoordinateSystem (ref_dsm a) (Some t) # reproject_calls e a t
                @ [ConvertFloat32 (test_dsm e a)]"
              using t4 by auto
            from core3dmetrics_main_run [OF 2(2)] oc t5 c cfg show thesis
              by (auto simp: engine_call_def intro: engine_failed [of c t] succeeded [of c t])
          qed
        qed
      qed
    qed
  qed
qed


lemma working_dir_nonempty: "working_dir e a \<noteq> []"
  by (simp add: working_dir_def split: option.splits)

lemma basename_no_sep: "sep \<notin> set (os_path_basename p)"
proof -
  have "\<forall>c \<in> set (takeWhile (\<lambda>c. c \<noteq> sep) (rev p)). c \<noteq> sep"
    by (auto dest: set_takeWhileD)
  then show ?thesis by (auto simp: os_path_basename_def)
qed

lemma join_basename:
  "wd \<noteq> [] \<Longrightarrow>
     os_path_join wd (os_path_basename p) =
       (if last wd = sep then wd @ os_path_basename p else wd @ [sep] @ os_path_basename p)"
  using basename_no_sep [of p]
  by (cases "os_path_basename p") (auto simp: os_path_join_def)

lemma join_basename_nonempty: "wd \<noteq> [] \<Longrightarrow> os_path_join wd (os_path_basename p) \<noteq> []"
  by (simp add: join_basename)

lemma basename_append_no_sep:
  "sep \<notin> set b \<Longrightarrow> xs \<noteq> [] \<Longrightarrow> last xs = sep \<Longrightarrow> os_path_basename (xs @ b) = b"
proof -
  assume b: "sep \<notin> set b" and xs: "xs \<noteq> []" "last xs = sep"
  from xs obtain ys where ys: "xs = ys @ [sep]"
    by (metis append_butlast_last_id)
  have "takeWhile (\<lambda>c. c \<noteq> sep) (rev b @ sep # rev ys)
          = rev b @ takeWhile (\<lambda>c. c \<noteq> sep) (sep # rev ys)"
    by (rule takeWhile_append2) (use b in auto)
  then have "takeWhile (\<lambda>c. c \<noteq> sep) (rev b @ sep # rev ys) = rev b"
    by simp
  then show ?thesis by (simp add: os_path_basename_def ys)
qed

lemma basename_staged: "os_path_basename (staged e a src) = os_path_basename src"
proof (cases "last (working_dir e a) = sep")
  case True
  then show ?thesis
    using basename_append_no_sep [OF basename_no_sep working_dir_nonempty True, of src]
    by (simp add: staged_def join_basename working_dir_nonempty)
next
  case False
  have "os_path_basename ((working_dir e a @ [sep]) @ os_path_basename src) = os_path_basename src"
    by (rule basename_append_no_sep [OF basename_no_sep]) simp_all
  with False show ?thesis
    by (simp add: staged_def join_basename working_dir_nonempty)
qed

lemma staged_opt_empty_iff: "staged_opt e a opt = [] \<longleftrightarrow> opt = None"
  by (auto simp: staged_opt_def join_basename_nonempty working_dir_nonempty split: option.splits)

lemma copy_calls_eq: "copy_calls e a = map (\<lambda>src. Copyfile src (staged e a src)) (supplied a)"
  by (simp add: copy_calls_def copy_opt_calls_def supplied_def staged_def test_dsm_def test_cls_def
        staged_opt_def split: option.splits)

lemma reproject_calls_eq:
  "reproject_calls e a t = map (\<lambda>src. ConvertCoordinateSystem (staged e a src) t) (supplied a)"
  using staged_opt_empty_iff [of e a "mtl a"] staged_opt_empty_iff [of e a "dtm a"]
  by (auto simp: reproject_calls_def reproject_opt_calls_def supplied_def staged_def test_dsm_def
        test_cls_def test_mtl_def test_dtm_def staged_opt_def split: option.splits)


lemma dir_calls_stage: "c \<in> set (dir_calls e a f) \<Longrightarrow> stage_of c = 1"
  by (auto simp: dir_calls_def split: option.splits if_splits)

lemma dir_calls_nonempty: "dir_calls e a f \<noteq> []"
  by (simp add: dir_calls_def split: option.splits)

lemma copy_calls_stage: "c \<in> set (copy_calls e a) \<Longrightarrow> stage_of c = 2"
  by (auto simp: copy_calls_eq)

lemma copy_calls_nonempty: "copy_calls e a \<noteq> []"
  by (simp add: copy_calls_def)

lemma render_calls_stage: "c \<in> set (render_calls e a) \<Longrightarrow> stage_of c = 3"
  by (auto simp: render_calls_def)

lemma config_calls_stage: "c \<in> set (config_calls e a x) \<Longrightarrow> stage_of c = 3"
  by (auto simp: config_calls_def render_calls_def)

lemma reproject_calls_stage: "c \<in> set (reproject_calls e a t) \<Longrightarrow> stage_of c = 5"
  by (auto simp: reproject_calls_eq)

lemma reproject_calls_nonempty: "reproject_calls e a t \<noteq> []"
  by (simp add: reproject_calls_def)

lemma engine_call_stage: "stage_of (engine_call e a) = 7"
  by (simp add: engine_call_def)

lemma copy_prefix_stage: "prefix cs (copy_calls e a) \<Longrightarrow> c \<in> set cs \<Longrightarrow> stage_of c = 2"
  using set_mono_prefix copy_calls_stage by blast

lemma reproject_prefix_stage:
  "prefix cs (reproject_calls e a t) \<Longrightarrow> c \<in> set cs \<Longrightarrow> stage_of c = 5"
  using set_mono_prefix reproject_calls_stage by blast

lemma sorted_block: "(\<And>c. c \<in> set xs \<Longrightarrow> stage_of c = k) \<Longrightarrow> sorted (map stage_of xs)"
  by (induction xs) auto

lemma image_block:
  "xs \<noteq> [] \<Longrightarrow> (\<And>c. c \<in> set xs \<Longrightarrow> stage_of c = k) \<Longrightarrow> stage_of ` set xs = {k}"
  by (cases xs) auto

lemmas block_stage = dir_calls_stage copy_calls_stage render_calls_stage config_calls_stage
  reproject_calls_stage

lemmas block_sorted = sorted_block [OF dir_calls_stage] sorted_block [OF copy_calls_stage]
  sorted_block [OF render_calls_stage] sorted_block [OF config_calls_stage]
  sorted_block [OF reproject_calls_stage]

lemmas block_image = image_block [OF dir_calls_nonempty dir_calls_stage]
  image_block [OF copy_calls_nonempty copy_calls_stage]
  image_block [OF _ config_calls_stage] image_block [OF _ render_calls_stage]
  image_block [OF reproject_calls_nonempty reproject_calls_stage]

lemma config_calls_nonempty: "config_calls e a x \<noteq> []" "render_calls e a \<noteq> []"
  by (simp_all add: config_calls_def render_calls_def)

lemma calls_sorted: "sorted (map stage_of (calls e a f))"
proof (cases rule: run_cases [of e a f])
  case (copy_failed err cs)
  then show ?thesis
    using sorted_block [of cs 2] copy_prefix_stage [OF copy_failed(4)]
    by (auto simp: sorted_append block_sorted block_stage)
next
  case (reproject_failed err c t cs)
  then show ?thesis
    using sorted_block [of cs 5] reproject_prefix_stage [OF reproject_failed(5)]
    by (auto simp: sorted_append block_sorted block_stage)
qed (auto simp: sorted_append block_sorted block_stage engine_call_stage)

lemma calls_initial_segment: "\<exists>n. stage_of ` set (calls e a f) = {1..n}"
proof (cases rule: run_cases [of e a f])
  case (dir_failed err)
  then have "stage_of ` set (calls e a f) = {1..1}"
    by (simp add: block_image)
  then show ?thesis ..
next
  case (copy_failed err cs)
  then have "stage_of ` set (calls e a f) = {1..2}"
    using image_block [of cs 2] copy_prefix_stage [OF copy_failed(4)]
    by (auto simp: image_Un block_image)
  then show ?thesis ..
next
  case template_failed
  then have "stage_of ` set (calls e a f) = {1..3}"
    by (auto simp: image_Un block_image config_calls_nonempty)
  then show ?thesis ..
next
  case (write_failed err c)
  then have "stage_of ` set (calls e a f) = {1..3}"
    by (auto simp: image_Un block_image config_calls_nonempty)
  then show ?thesis ..
next
  case (resolve_failed c)
  then have "stage_of ` set (calls e a f) = {1..4}"
    by (auto simp: image_Un block_image config_calls_nonempty)
  then show ?thesis ..
next
  case (reproject_failed err c t cs)
  then have "stage_of ` set (calls e a f) = {1..5}"
    using image_block [of cs 5] reproject_prefix_stage [OF reproject_failed(5)]
    by (auto simp: image_Un block_image config_calls_nonempty)
  then show ?thesis ..
next
  case (float32_failed err c t)
  then have "stage_of ` set (calls e a f) = {1..6}"
    by (auto simp: image_Un block_image config_calls_nonempty)
  then show ?thesis ..
next
  case (engine_failed c t)
  then have "stage_of ` set (calls e a f) = {1..7}"
    by (auto simp: image_Un block_image config_calls_nonempty engine_call_stage)
  then show ?thesis ..
next
  case (succeeded c t)
  then have "stage_of ` set (calls e a f) = {1..7}"
    by (auto simp: image_Un block_image config_calls_nonempty engine_call_stage)
  then show ?thesis ..
qed


lemma is_copy_stage: "is_copy = (\<lambda>c. stage_of c = 2)"
proof (rule ext)
  fix c show "is_copy c = (stage_of c = 2)" by (cases c) auto
qed

lemma is_reproject_stage: "is_reproject = (\<lambda>c. stage_of c = 5)"
proof (rule ext)
  fix c show "is_reproject c = (stage_of c = 5)" by (cases c) auto
qed


lemma is_engine_stage: "is_engine = (\<lambda>c. stage_of c = 7)"
proof (rule ext)
  fix c show "is_engine c = (stage_of c = 7)" by (cases c) auto
qed

lemma filter_block:
  "(\<And>c. c \<in> set xs \<Longrightarrow> stage_of c = k) \<Longrightarrow>
     filter (\<lambda>c. stage_of c = j) xs = (if j = k then xs else [])"
  by (induction xs) auto

lemmas block_filter = filter_block [OF dir_calls_stage] filter_block [OF copy_calls_stage]
  filter_block [OF render_calls_stage] filter_block [OF config_calls_stage]
  filter_block [OF reproject_calls_stage]

lemma not_in_block [simp]:
  "stage_of c \<noteq> 1 \<Longrightarrow> c \<notin> set (dir_calls e a f)"
  "stage_of c \<noteq> 2 \<Longrightarrow> c \<notin> set (copy_calls e a)"
  "stage_of c \<noteq> 3 \<Longrightarrow> c \<notin> set (render_calls e a)"
  "stage_of c \<noteq> 3 \<Longrightarrow> c \<notin> set (config_calls e a x)"
  "stage_of c \<noteq> 5 \<Longrightarrow> c \<notin> set (reproject_calls e a t)"
  using block_stage by blast+

lemma not_in_copy_prefix: "prefix cs (copy_calls e a) \<Longrightarrow> stage_of c \<noteq> 2 \<Longrightarrow> c \<notin> set cs"
  using copy_prefix_stage by blast

lemma not_in_reproject_prefix:
  "prefix cs (reproject_calls e a t) \<Longrightarrow> stage_of c \<noteq> 5 \<Longrightarrow> c \<notin> set cs"
  using reproject_prefix_stage by blast

lemma filter_copy_prefix:
  "prefix cs (copy_calls e a) \<Longrightarrow> filter (\<lambda>c. stage_of c = j) cs = (if j = 2 then cs else [])"
  using filter_block [of cs 2 j] copy_prefix_stage by blast

lemma filter_reproject_prefix:
  "prefix cs (reproject_calls e a t) \<Longrightarrow> filter (\<lambda>c. stage_of c = j) cs = (if j = 5 then cs else [])"
  using filter_block [of cs 5 j] reproject_prefix_stage by blast

lemmas in_prefix = not_in_copy_prefix not_in_reproject_prefix filter_copy_prefix filter_reproject_prefix

lemma success_calls:
  assumes "outcome e a f = Inr ()"
  obtains c t where "config_text e a = Inr c"
    "calls e a f = dir_calls e a f @ copy_calls e a @ config_calls e a c
                   @ GetCoordinateSystem (ref_dsm a) (Some t) # reproject_calls e a t
                   @ [ConvertFloat32 (test_dsm e a), engine_call e a]"
  using assms by (cases rule: run_cases [of e a f]) auto

lemma resolve_call_mem:
  "GetCoordinateSystem p r \<in> set (calls e a f) \<Longrightarrow> p = ref_dsm a"
  by (cases rule: run_cases [of e a f]) (auto simp: in_prefix engine_call_def)

lemma reproject_call_mem:
  assumes "ConvertCoordinateSystem p t \<in> set (calls e a f)"
  shows "ConvertCoordinateSystem p t \<in> set (reproject_calls e a t) \<and>
         GetCoordinateSystem (ref_dsm a) (Some t) \<in> set (calls e a f)"
proof (cases rule: run_cases [of e a f])
  case (reproject_failed err c t' cs)
  with assms have "ConvertCoordinateSystem p t \<in> set cs"
    by (auto simp: in_prefix)
  with reproject_failed(5) have "ConvertCoordinateSystem p t \<in> set (reproject_calls e a t')"
    using set_mono_prefix by blast
  moreover from this have "t = t'"
    by (auto simp: reproject_calls_eq)
  ultimately show ?thesis using reproject_failed by simp
qed (use assms in \<open>auto simp: in_prefix engine_call_def reproject_calls_eq\<close>)




lemma copy_filter_prefix: "prefix (filter is_copy (calls e a f)) (copy_calls e a)"
  by (cases rule: run_cases [of e a f])
     (auto simp: in_prefix engine_call_def is_copy_stage block_filter)

lemma copy_filter_complete:
  assumes "c \<in> set (calls e a f)" "3 \<le> stage_of c"
  shows "filter is_copy (calls e a f) = copy_calls e a"
  using assms
  by (cases rule: run_cases [of e a f])
     (auto simp: in_prefix engine_call_def is_copy_stage block_filter
           dest: dir_calls_stage copy_prefix_stage)

lemma populate_call_mem:
  assumes "PopulateTemplate t r d c m x \<in> set (calls e a f)"
  shows "t = template e \<and> r = ref_prefix a \<and> d = test_dsm e a \<and> c = test_cls e a \<and>
         m = test_mtl e a \<and> x = test_dtm e a"
  using assms
  by (cases rule: run_cases [of e a f])
     (auto simp: in_prefix engine_call_def config_calls_def render_calls_def)

lemma engine_call_mem:
  assumes "Core3dMetrics argv \<in> set (calls e a f)"
  shows "Core3dMetrics argv = engine_call e a \<and> last (calls e a f) = engine_call e a \<and>
         filter is_engine (calls e a f) = [engine_call e a] \<and>
         (\<exists>c. OpenWrite (config_filename e a) c \<in> set (calls e a f))"
  using assms
  by (cases rule: run_cases [of e a f])
     (auto simp: in_prefix is_engine_stage block_filter engine_call_stage config_calls_def)

lemmas model_defs = sep_def os_path_basename_def os_path_join_def node_at_def ret_def bind_def log_def is_abs_def
  resolve_def lookup_def os_path_exists_def parent_error_def mkdir_fs_def os_mkdir_def makedirs_fs_def os_makedirs_def
  open_w_def copyfile_fs_def shutil_copyfile_def write_file_def digit_char_def now_timestamp_str_def split_dot0_def
  crs_of_def get_coordinate_system_def reproject_fs_def convert_coordinate_system_def float32_fs_def convert_float32_def
  config_get_template_def populate_def config_populate_template_def config_get_filename_def core3dmetrics_main_def
  create_working_dir_def generate_config_file_def main_working_dir_def copy_optional_def main_copy_inputs_def
  main_convert_coordinates_def main_def run_def outcome_def calls_def final_fs_def Let_def

lemmas demo_defs = demo_env_def demo_fs_def demo_args_def utm_float32_def wgs_float64_def wgs_byte_def

lemma demo_outcome: "outcome demo_env demo_args demo_fs = Inr ()"
  by (simp add: model_defs demo_defs)

lemma set_stage_prefix: "{1..7::nat} = {1, 2, 3, 4, 5, 6, 7}"
  by auto

lemma demo_calls:
  "calls demo_env demo_args demo_fs =
     [PathExists ''out'', Makedirs ''out'',
      Copyfile ''in/d.tif'' ''out/d.tif'', Copyfile ''in/c.tif'' ''out/c.tif'',
      Copyfile ''in/m.tif'' ''out/m.tif'',
      GetTemplate,
      PopulateTemplate (template demo_env) ''AOI'' ''out/d.tif'' ''out/c.tif'' ''out/m.tif'' [],
      GetFilename ''out/d.tif'' ''out/c.tif'',
      OpenWrite ''out/d.tif_c.tif.config''
        ''ref=AOI dsm=out/d.tif cls=out/c.tif mtl=out/m.tif dtm='',
      GetCoordinateSystem ''ref/AOI-DSM.tif'' (Some ''utm17''),
      ConvertCoordinateSystem ''out/d.tif'' ''utm17'',
      ConvertCoordinateSystem ''out/c.tif'' ''utm17'',
      ConvertCoordinateSystem ''out/m.tif'' ''utm17'',
      ConvertFloat32 ''out/d.tif'',
      Core3dMetrics [''--config'', ''out/d.tif_c.tif.config'', ''--reference'', ''ref'',
                     ''--test'', ''out'', ''--output'', ''out'']]"
  by (simp add: model_defs demo_defs)

lemma demo_staged:
  "staged demo_env demo_args ''in/d.tif'' = ''out/d.tif''"
  "staged demo_env demo_args ''in/c.tif'' = ''out/c.tif''"
  "staged demo_env demo_args ''in/m.tif'' = ''out/m.tif''"
  "supplied demo_args = [''in/d.tif'', ''in/c.tif'', ''in/m.tif'']"
  by (simp_all add: staged_def supplied_def working_dir_def model_defs demo_defs)

lemma ref_dsm_unfold: "ref_dsm a = os_path_join (ref_dir a) (ref_prefix a @ ''-DSM.tif'')"
  by (simp add: ref_dsm_def)

lemma test_dsm_staged: "test_dsm e a = staged e a (dsm a)"
  by (simp add: test_dsm_def staged_def)

lemma test_cls_staged: "test_cls e a = staged e a (cls a)"
  by (simp add: test_cls_def staged_def)

lemma test_mtl_staged: "test_mtl e a = (case mtl a of None \<Rightarrow> [] | Some src \<Rightarrow> staged e a src)"
  by (simp add: test_mtl_def staged_opt_def staged_def split: option.splits)

lemma test_dtm_staged: "test_dtm e a = (case dtm a of None \<Rightarrow> [] | Some src \<Rightarrow> staged e a src)"
  by (simp add: test_dtm_def staged_opt_def staged_def split: option.splits)

lemma staged_shape:
  "staged e a src =
     working_dir e a @ (if last (working_dir e a) = sep then [] else [sep]) @ os_path_basename src"
  by (simp add: staged_def join_basename working_dir_nonempty)

lemma staged_nonempty: "staged e a src \<noteq> []"
  by (simp add: staged_def join_basename_nonempty working_dir_nonempty)

lemma dir_calls_working_dir:
  "PathExists (working_dir e a) \<in> set (dir_calls e a f) \<or> Mkdir (working_dir e a) \<in> set (dir_calls e a f)"
  by (auto simp: dir_calls_def working_dir_def split: option.splits)

lemma calls_start: "prefix (dir_calls e a f) (calls e a f)"
  by (cases rule: run_cases [of e a f]) auto

lemma calls_working_dir:
  "PathExists (working_dir e a) \<in> set (calls e a f) \<or> Mkdir (working_dir e a) \<in> set (calls e a f)"
  using dir_calls_working_dir [of e a f] set_mono_prefix [OF calls_start [of e a f]] by blast

lemma kept_refl [simp]: "kept W f f"
  by (simp add: kept_def)

lemma kept_trans: "kept W f g \<Longrightarrow> kept W g h \<Longrightarrow> kept W f h"
  unfolding kept_def
  apply (intro allI conjI impI)
    apply metis
   apply metis
  apply (metis option.distinct(1))
  done

lemma kept_mono: "kept V f g \<Longrightarrow> V \<subseteq> W \<Longrightarrow> kept W f g"
  unfolding kept_def by blast

lemma kept_update_file:
  "f k \<noteq> Some Dir \<Longrightarrow> kept {k} f (f(k \<mapsto> File c))"
  by (auto simp: kept_def)

lemma kept_new_dir: "f k = None \<Longrightarrow> kept W f (f(k \<mapsto> Dir))"
  by (auto simp: kept_def)

lemma open_w_key:
  "open_w e f p = Inr k \<Longrightarrow> k = resolve e p \<and> f k \<noteq> Some Dir \<and> k \<noteq> []"
  by (auto simp: open_w_def node_at_def split: if_splits option.splits node.splits)

lemma mkdir_fs_kept: "mkdir_fs e f p = Inr f' \<Longrightarrow> kept W f f'"
  by (auto simp: mkdir_fs_def node_at_def intro: kept_new_dir split: if_splits option.splits)

lemma os_mkdir_kept: "os_mkdir e p s = (r, s') \<Longrightarrow> kept W (fs s) (fs s')"
  by (auto simp: os_mkdir_def dest: mkdir_fs_kept split: sum.splits)

lemma make_path_kept: "make_path f k cs p = (r, f') \<Longrightarrow> kept W f f'"
proof (induction f k cs p arbitrary: r f' rule: make_path.induct)
  case (1 f k p)
  then show ?case by simp
next
  case (2 f k c cs p)
  note run = \<open>make_path f k (c # cs) p = (r, f')\<close>
  show ?case
  proof (cases "node_at f (k @ [c])")
    case None
    then have "f (k @ [c]) = None" by (simp add: node_at_def)
    then have "kept W f (f(k @ [c] \<mapsto> Dir))" by (rule kept_new_dir)
    moreover have "kept W (f(k @ [c] \<mapsto> Dir)) f'"
    proof (rule "2.IH"(1) [OF None])
      from run None show "make_path (f(k @ [c] \<mapsto> Dir)) (k @ [c]) cs p = (r, f')"
        by simp
    qed
    ultimately show ?thesis by (rule kept_trans)
  next
    case (Some n)
    show ?thesis
    proof (cases n)
      case Dir
      show ?thesis
      proof (rule "2.IH"(2) [OF Some Dir])
        from run Some Dir show "make_path f (k @ [c]) cs p = (r, f')" by simp
      qed
    next
      case (File x)
      with run Some show ?thesis by simp
    qed
  qed
qed

lemma os_makedirs_kept: "os_makedirs e p s = (r, s') \<Longrightarrow> kept W (fs s) (fs s')"
  by (auto simp: os_makedirs_def makedirs_fs_def dest: make_path_kept
           split: prod.splits option.splits if_splits)

lemma shutil_copyfile_kept:
  "shutil_copyfile e src dst s = (r, s') \<Longrightarrow> kept {resolve e dst} (fs s) (fs s')"
  by (auto simp: shutil_copyfile_def copyfile_fs_def dest!: open_w_key intro: kept_update_file
           split: sum.splits if_splits option.splits node.splits)

lemma write_file_kept:
  "write_file e p c s = (r, s') \<Longrightarrow> kept {resolve e p} (fs s) (fs s')"
  by (auto simp: write_file_def dest!: open_w_key intro: kept_update_file split: sum.splits)

lemma lookup_file_key:
  "lookup e f p = Some (File c) \<Longrightarrow> f (resolve e p) = Some (File c)"
  by (auto simp: lookup_def node_at_def split: if_splits)

lemma convert_coordinate_system_kept:
  "convert_coordinate_system e p t s = (r, s') \<Longrightarrow> kept {resolve e p} (fs s) (fs s')"
  by (auto simp: convert_coordinate_system_def reproject_fs_def
           dest!: lookup_file_key intro!: kept_update_file
           split: sum.splits option.splits node.splits content.splits)

lemma convert_float32_kept:
  "convert_float32 e p s = (r, s') \<Longrightarrow> kept {resolve e p} (fs s) (fs s')"
  by (auto simp: convert_float32_def float32_fs_def
           dest!: lookup_file_key intro!: kept_update_file
           split: sum.splits option.splits node.splits content.splits if_splits)

lemma keepsD: "keeps W m \<Longrightarrow> m s = (r, s') \<Longrightarrow> kept W (fs s) (fs s')"
  by (simp add: keeps_def)

lemma keeps_ret [simp]: "keeps W (ret x)"
  by (simp add: keeps_def ret_def)

lemma keeps_bind_result:
  assumes "keeps W m" and "\<And>s x s'. m s = (Inr x, s') \<Longrightarrow> x = v" and "keeps W (g v)"
  shows "keeps W (bind m g)"
  unfolding keeps_def
proof (intro allI impI)
  fix s r s' assume "bind m g s = (r, s')"
  then show "kept W (fs s) (fs s')"
  proof (cases rule: bindE)
    case (failed err)
    with assms(1) show ?thesis by (auto dest: keepsD)
  next
    case (passed x s1)
    with assms(2) have "x = v" by blast
    with passed assms(1,3) show ?thesis by (blast intro: kept_trans dest: keepsD)
  qed
qed

lemma keeps_bind:
  assumes "keeps W m" and "\<And>x. keeps W (g x)"
  shows "keeps W (bind m g)"
  unfolding keeps_def
proof (intro allI impI)
  fix s r s' assume "bind m g s = (r, s')"
  then show "kept W (fs s) (fs s')"
  proof (cases rule: bindE)
    case (failed err)
    with assms(1) show ?thesis by (auto dest: keepsD)
  next
    case (passed x s1)
    from keepsD [OF assms(1) passed(1)] keepsD [OF assms(2) passed(2)]
    show ?thesis by (rule kept_trans)
  qed
qed

lemma keeps_if: "(b \<Longrightarrow> keeps W m) \<Longrightarrow> (\<not> b \<Longrightarrow> keeps W n) \<Longrightarrow> keeps W (if b then m else n)"
  by simp

lemma keeps_prims:
  "keeps W (os_path_exists e p)"
  "keeps W (now_timestamp_str e)"
  "keeps W (os_mkdir e p)"
  "keeps W (os_makedirs e p)"
  "keeps W (config_get_template e)"
  "keeps W (config_populate_template t r d c m x)"
  "keeps W (config_get_filename e d c)"
  "keeps W (get_coordinate_system e p)"
  "keeps W (core3dmetrics_main e argv)"
  by (auto simp: keeps_def os_path_exists_def now_timestamp_str_def config_get_template_def
        config_populate_template_def config_get_filename_def get_coordinate_system_def
        core3dmetrics_main_def
        dest: os_mkdir_kept os_makedirs_kept split: option.splits)

lemma keeps_writes:
  "resolve e dst \<in> W \<Longrightarrow> keeps W (shutil_copyfile e src dst)"
  "resolve e p \<in> W \<Longrightarrow> keeps W (write_file e p c)"
  "resolve e p \<in> W \<Longrightarrow> keeps W (convert_coordinate_system e p t)"
  "resolve e p \<in> W \<Longrightarrow> keeps W (convert_float32 e p)"
  unfolding keeps_def
  by (blast intro: kept_mono dest: shutil_copyfile_kept write_file_kept
        convert_coordinate_system_kept convert_float32_kept)+



lemma keeps_copy_optional:
  "(\<And>src. opt = Some src \<Longrightarrow> resolve e (os_path_join wd (os_path_basename src)) \<in> W) \<Longrightarrow>
     keeps W (copy_optional e wd opt)"
  unfolding copy_optional_def Let_def
  by (auto split: option.splits intro!: keeps_bind keeps_writes keeps_ret)

lemma staged_written: "src \<in> set (supplied a) \<Longrightarrow> resolve e (staged e a src) \<in> written e a"
  by (simp add: written_def)

lemma supplied_mem:
  "dsm a \<in> set (supplied a)" "cls a \<in> set (supplied a)"
  "mtl a = Some src \<Longrightarrow> src \<in> set (supplied a)"
  "dtm a = Some src \<Longrightarrow> src \<in> set (supplied a)"
  by (simp_all add: supplied_def)

lemma test_paths_written:
  "resolve e (test_dsm e a) \<in> written e a"
  "resolve e (test_cls e a) \<in> written e a"
  "test_mtl e a \<noteq> [] \<Longrightarrow> resolve e (test_mtl e a) \<in> written e a"
  "test_dtm e a \<noteq> [] \<Longrightarrow> resolve e (test_dtm e a) \<in> written e a"
  "resolve e (config_filename e a) \<in> written e a"
  by (auto simp: test_dsm_staged test_cls_staged test_mtl_staged test_dtm_staged written_def
        supplied_def split: option.splits)

lemma keeps_main_copy_inputs: "keeps (written e a) (main_copy_inputs e a (working_dir e a))"
  unfolding main_copy_inputs_def Let_def
  apply (intro keeps_bind keeps_writes keeps_ret keeps_copy_optional)
     apply (fold staged_def)
     apply (simp_all add: staged_written supplied_mem)
  done

lemma keeps_generate_config_file:
  "keeps (written e a) (generate_config_file e (working_dir e a) (ref_prefix a)
     (test_dsm e a) (test_cls e a) (test_mtl e a) (test_dtm e a))"
  unfolding generate_config_file_def Let_def
proof (rule keeps_bind [OF keeps_prims(5)], rule keeps_bind [OF keeps_prims(6)],
    rule keeps_bind_result [where v = "filename_rule e (test_dsm e a) (test_cls e a)"])
  fix t :: "token list" and c :: string
  show "keeps (written e a) (config_get_filename e (test_dsm e a) (test_cls e a))"
    by (rule keeps_prims)
  show "x = filename_rule e (test_dsm e a) (test_cls e a)"
    if "config_get_filename e (test_dsm e a) (test_cls e a) s = (Inr x, s')" for s x s'
    using that by (simp add: config_get_filename_def)
  have "resolve e (os_path_join (working_dir e a) (filename_rule e (test_dsm e a) (test_cls e a)))
          \<in> written e a"
    using test_paths_written(5) [of e a] by (simp add: config_filename_def)
  then show "keeps (written e a)
      (bind (write_file e (os_path_join (working_dir e a)
               (filename_rule e (test_dsm e a) (test_cls e a))) c)
         (\<lambda>_. ret (os_path_join (working_dir e a) (filename_rule e (test_dsm e a) (test_cls e a)))))"
    by (intro keeps_bind keeps_writes keeps_ret)
qed

lemma keeps_main_convert_coordinates:
  "keeps (written e a) (main_convert_coordinates e ref (test_dsm e a) (test_cls e a)
     (test_mtl e a) (test_dtm e a))"
  unfolding main_convert_coordinates_def
  by (intro keeps_bind keeps_prims keeps_writes keeps_if keeps_ret test_paths_written)
     









lemma os_mkdir_creates:
  "os_mkdir e p s = (Inr x, s') \<Longrightarrow> lookup e (fs s) p = None \<and> lookup e (fs s') p = Some Dir"
  by (auto simp: os_mkdir_def mkdir_fs_def lookup_def node_at_def
           split: sum.splits option.splits if_splits)

lemma os_mkdir_failed: "os_mkdir e p s = (Inl err, s') \<Longrightarrow> fs s' = fs s"
  by (auto simp: os_mkdir_def split: sum.splits)

lemma os_mkdir_exists:
  "lookup e (fs s) p \<noteq> None \<Longrightarrow> os_mkdir e p s = (Inl (FileExistsError p), log (Mkdir p) s)"
  by (auto simp: os_mkdir_def mkdir_fs_def lookup_def split: if_splits)




lemma create_working_dir_effect:
  assumes "create_working_dir e s = (r, s')"
  shows "r = Inr (timestamp_dir e) \<and> lookup e (fs s) (timestamp_dir e) = None \<and>
           lookup e (fs s') (timestamp_dir e) = Some Dir
         \<or> (\<exists>err. r = Inl err \<and> os_error err \<and> fs s' = fs s)"
proof -
  from assms have "bind (os_mkdir e (timestamp_dir e)) (\<lambda>_. ret (timestamp_dir e)) (log Now s) = (r, s')"
    by (simp add: create_working_dir_def Let_def split_dot0_timestamp timestamp_dir_def)
  then show ?thesis
  proof (cases rule: bindE)
    case (failed err)
    then show ?thesis using os_mkdir_run [OF failed(1)] os_mkdir_failed [OF failed(1)] by auto
  next
    case (passed x s1)
    then show ?thesis using os_mkdir_creates [OF passed(1)] by (auto simp: ret_def)
  qed
qed

lemma create_working_dir_exists:
  assumes "lookup e (fs s) (timestamp_dir e) \<noteq> None"
  shows "create_working_dir e s =
       (Inl (FileExistsError (timestamp_dir e)), log (Mkdir (timestamp_dir e)) (log Now s))"
proof -
  have "os_mkdir e (timestamp_dir e) (log Now s) =
      (Inl (FileExistsError (timestamp_dir e)), log (Mkdir (timestamp_dir e)) (log Now s))"
    by (rule os_mkdir_exists) (simp add: assms)
  then show ?thesis
    unfolding create_working_dir_def Let_def timestamp_dir_def
    by (simp add: split_dot0_timestamp, simp add: bind_def)
qed

lemma main_working_dir_timestamp:
  "output_dir a = None \<or> output_dir a = Some [] \<Longrightarrow> main_working_dir e a = create_working_dir e"
  by (auto simp: main_working_dir_def)

lemma kept_empty_all: "kept {} f f' \<Longrightarrow> \<forall>k. f k \<noteq> None \<longrightarrow> f' k = f k"
  by (auto simp: kept_def)

lemma main_split: "main e a = bind (main_working_dir e a) (main_after_working_dir e a)"
  by (simp add: main_def main_after_working_dir_def [abs_def] Let_def)

lemma keeps_main_after: "keeps (written e a) (main_after_working_dir e a (working_dir e a))"
  unfolding main_after_working_dir_def Let_def
proof (rule keeps_bind_result
    [where v = "(test_dsm e a, test_cls e a, test_mtl e a, test_dtm e a)"])
  show "keeps (written e a) (main_copy_inputs e a (working_dir e a))"
    by (rule keeps_main_copy_inputs)
  show "x = (test_dsm e a, test_cls e a, test_mtl e a, test_dtm e a)"
    if "main_copy_inputs e a (working_dir e a) s = (Inr x, s')" for s x s'
    using main_copy_inputs_run [OF that] by auto
  show "keeps (written e a)
     (case (test_dsm e a, test_cls e a, test_mtl e a, test_dtm e a) of
      (d, c, m, t) \<Rightarrow>
         bind (generate_config_file e (working_dir e a) (ref_prefix a) d c m t)
          (\<lambda>config_filename.
              bind (main_convert_coordinates e
                     (os_path_join (ref_dir a) (ref_prefix a @ ''-DSM.tif'')) d c m t)
               (\<lambda>_. bind (convert_float32 e d)
                     (\<lambda>_. core3dmetrics_main e
                           [''--config'', config_filename, ''--reference'', ref_dir a,
                            ''--test'', working_dir e a, ''--output'', working_dir e a]))))"
    by (simp, intro keeps_bind keeps_generate_config_file keeps_main_convert_coordinates
        keeps_writes keeps_prims test_paths_written)
qed

lemma run_dir_failed:
  "main_working_dir e a \<lparr>fs = f, trace = []\<rparr> = (Inl err, s') \<Longrightarrow> run e a f = (Inl err, s')"
  by (simp add: run_def main_split bind_def)

lemma run_dir_passed:
  "main_working_dir e a \<lparr>fs = f, trace = []\<rparr> = (Inr wd, s1) \<Longrightarrow>
     run e a f = main_after_working_dir e a wd s1"
  by (simp add: run_def main_split bind_def)

lemma reached_staging:
  assumes "c \<in> set (calls e a f)" "2 \<le> stage_of c"
  obtains s1 where "main_working_dir e a \<lparr>fs = f, trace = []\<rparr> = (Inr (working_dir e a), s1)"
    and "kept (written e a) (fs s1) (final_fs e a f)"
proof -
  obtain r s1 where step: "main_working_dir e a \<lparr>fs = f, trace = []\<rparr> = (r, s1)"
    by fastforce
  show thesis
  proof (cases r)
    case (Inl err)
    with step have "run e a f = (Inl err, s1)"
      by (simp add: run_dir_failed)
    then have "calls e a f = dir_calls e a f"
      using main_working_dir_run [OF step] by (simp add: calls_def)
    with assms have False
      by (auto dest: dir_calls_stage)
    then show ?thesis ..
  next
    case (Inr wd)
    with main_working_dir_run [OF step] have wd: "wd = working_dir e a"
      by simp
    from step Inr wd have run: "run e a f = main_after_working_dir e a (working_dir e a) s1"
      by (simp add: run_dir_passed)
    obtain r' s' where rest: "main_after_working_dir e a (working_dir e a) s1 = (r', s')"
      by fastforce
    from keepsD [OF keeps_main_after rest] run rest
    have "kept (written e a) (fs s1) (final_fs e a f)"
      by (simp add: final_fs_def)
    with step Inr wd show ?thesis
      by (intro that [of s1]) simp_all
  qed
qed

lemma lookup_cwd: "cwd e' = cwd e \<Longrightarrow> lookup e' f p = lookup e f p"
  by (simp add: lookup_def resolve_def)

lemma kept_lookup_dir: "kept W f f' \<Longrightarrow> lookup e f p = Some Dir \<Longrightarrow> lookup e f' p = Some Dir"
  by (auto simp: kept_def lookup_def node_at_def split: if_splits)

lemma timestamp_dir_collision:
  assumes a': "output_dir a' = None \<or> output_dir a' = Some []"
    and there: "lookup e' g (timestamp_dir e') \<noteq> None"
  shows "run e' a' g =
    (Inl (FileExistsError (timestamp_dir e')), \<lparr>fs = g, trace = [Now, Mkdir (timestamp_dir e')]\<rparr>)"
proof -
  have "create_working_dir e' \<lparr>fs = g, trace = []\<rparr> =
      (Inl (FileExistsError (timestamp_dir e')),
       log (Mkdir (timestamp_dir e')) (log Now \<lparr>fs = g, trace = []\<rparr>))"
    by (rule create_working_dir_exists) (simp add: there)
  then show ?thesis
    by (simp add: run_dir_failed main_working_dir_timestamp [OF a'] log_def)
qed

lemma stamp_calls_copy:
  "Copyfile ''in/d.tif'' ''metrics-1730000000/d.tif'' \<in> set (calls demo_env stamp_args demo_fs)"
  by (simp add: stamp_args_def model_defs demo_defs show_nat.simps)

























section \<open>The claims\<close>

text \<open>
  C2. For every invocation the calls are made in the fixed order of the steps: working
  directory (1), copies (2), config document rendered and written (3), reference
  coordinate system resolved (4), reprojections (5), pixel type of the DSM (6), engine
  (7). No call of a later step precedes a call of an earlier one, no step is entered
  before every earlier step has been entered, and a run in which nothing fails goes
  through all seven and ends with the engine call.
\<close>

theorem steps_in_fixed_order:
  "sorted (map stage_of (calls e a f)) \<and>
   (\<exists>n. stage_of ` set (calls e a f) = {1..n}) \<and>
   (outcome e a f = Inr () \<longrightarrow>
      stage_of ` set (calls e a f) = {1..7} \<and>
      stage_of (last (calls e a f)) = 7)"
proof (intro conjI impI)
  show "sorted (map stage_of (calls e a f))"
    by (rule calls_sorted)
  show "\<exists>n. stage_of ` set (calls e a f) = {1..n}"
    by (rule calls_initial_segment)
next
  assume ok: "outcome e a f = Inr ()"
  then obtain c t where full:
    "calls e a f = dir_calls e a f @ copy_calls e a @ config_calls e a c
       @ GetCoordinateSystem (ref_dsm a) (Some t) # reproject_calls e a t
       @ [ConvertFloat32 (test_dsm e a), engine_call e a]"
    by (rule success_calls)
  show "stage_of ` set (calls e a f) = {1..7}"
    unfolding full by (auto simp: image_Un block_image config_calls_nonempty engine_call_stage)
  show "stage_of (last (calls e a f)) = 7"
    unfolding full by (simp add: engine_call_stage)
qed

theorem steps_in_fixed_order_witness:
  "outcome demo_env demo_args demo_fs = Inr () \<and>
   stage_of ` set (calls demo_env demo_args demo_fs) = {1..7} \<and>
   stage_of (last (calls demo_env demo_args demo_fs)) = 7"
  using steps_in_fixed_order [of demo_env demo_args demo_fs] demo_outcome by blast

text \<open>
  C1. In a run in which every step succeeds, the reprojection calls are exactly one for
  each staged candidate raster (the DSM, the CLS, and the MTL and DTM when supplied), in
  that order, and each passes the coordinate system that the resolver returned for
  \<^verbatim>\<open>os.path.join(ref_dir, ref_prefix + '-DSM.tif')\<close>. In any run, a path passed to
  reprojection is the staged copy of a supplied input, the coordinate system passed
  with it is one the resolver returned for the reference DSM, and the resolver is called
  on no other file.
\<close>

theorem reprojection_into_reference_crs:
  "(outcome e a f = Inr () \<longrightarrow>
      (\<exists>t. GetCoordinateSystem (os_path_join (ref_dir a) (ref_prefix a @ ''-DSM.tif'')) (Some t)
             \<in> set (calls e a f) \<and>
           filter is_reproject (calls e a f) =
             map (\<lambda>src. ConvertCoordinateSystem (staged e a src) t) (supplied a))) \<and>
   (\<forall>p t. ConvertCoordinateSystem p t \<in> set (calls e a f) \<longrightarrow>
      p \<in> staged e a ` set (supplied a) \<and>
      GetCoordinateSystem (os_path_join (ref_dir a) (ref_prefix a @ ''-DSM.tif'')) (Some t)
        \<in> set (calls e a f)) \<and>
   (\<forall>p r. GetCoordinateSystem p r \<in> set (calls e a f) \<longrightarrow>
      p = os_path_join (ref_dir a) (ref_prefix a @ ''-DSM.tif''))"
proof (intro conjI impI allI)
  assume "outcome e a f = Inr ()"
  then obtain c t where full:
    "calls e a f = dir_calls e a f @ copy_calls e a @ config_calls e a c
       @ GetCoordinateSystem (ref_dsm a) (Some t) # reproject_calls e a t
       @ [ConvertFloat32 (test_dsm e a), engine_call e a]"
    by (rule success_calls)
  have "filter is_reproject (calls e a f) = reproject_calls e a t"
    unfolding full by (simp add: is_reproject_stage block_filter engine_call_stage)
  moreover have "GetCoordinateSystem (ref_dsm a) (Some t) \<in> set (calls e a f)"
    unfolding full by simp
  ultimately show "\<exists>t. GetCoordinateSystem (os_path_join (ref_dir a) (ref_prefix a @ ''-DSM.tif'')) (Some t)
             \<in> set (calls e a f) \<and>
           filter is_reproject (calls e a f) =
             map (\<lambda>src. ConvertCoordinateSystem (staged e a src) t) (supplied a)"
    unfolding reproject_calls_eq ref_dsm_unfold by blast
next
  fix p t assume "ConvertCoordinateSystem p t \<in> set (calls e a f)"
  from reproject_call_mem [OF this]
  show "p \<in> staged e a ` set (supplied a)"
    and "GetCoordinateSystem (os_path_join (ref_dir a) (ref_prefix a @ ''-DSM.tif'')) (Some t)
           \<in> set (calls e a f)"
    unfolding reproject_calls_eq ref_dsm_unfold by auto
next
  fix p r assume "GetCoordinateSystem p r \<in> set (calls e a f)"
  then show "p = os_path_join (ref_dir a) (ref_prefix a @ ''-DSM.tif'')"
    using resolve_call_mem [of p r e a f] by (simp add: ref_dsm_unfold)
qed

theorem reprojection_into_reference_crs_witness:
  "outcome demo_env demo_args demo_fs = Inr () \<and>
   (\<exists>t. GetCoordinateSystem ''ref/AOI-DSM.tif'' (Some t) \<in> set (calls demo_env demo_args demo_fs) \<and>
        filter is_reproject (calls demo_env demo_args demo_fs) =
          [ConvertCoordinateSystem ''out/d.tif'' t, ConvertCoordinateSystem ''out/c.tif'' t,
           ConvertCoordinateSystem ''out/m.tif'' t])"
proof -
  have ok: "outcome demo_env demo_args demo_fs = Inr ()"
    by (rule demo_outcome)
  have ref: "os_path_join (ref_dir demo_args) (ref_prefix demo_args @ ''-DSM.tif'') = ''ref/AOI-DSM.tif''"
    by (simp add: model_defs demo_defs)
  note claim = reprojection_into_reference_crs [of demo_env demo_args demo_fs]
  from claim [THEN conjunct1, rule_format, OF ok]
  show ?thesis using ok by (simp add: ref demo_staged)
qed



text \<open>
  C5. The copies a run makes are, in order, one for each supplied input (DSM, CLS, then
  MTL and DTM when supplied), each to the working directory joined with the base name of
  the source, so that the staged file has the source's base name; a run stops at the
  first copy that fails, and every run that gets as far as the config document, a
  successful one in particular, has made them all. An optional input that was not
  supplied is not copied, its staged path is the empty string in the call that renders
  the config document, and no reprojection is attempted for it.
\<close>

theorem staging_copies_supplied_inputs:
  "prefix (filter is_copy (calls e a f))
     (map (\<lambda>src. Copyfile src (os_path_join (working_dir e a) (os_path_basename src))) (supplied a)) \<and>
   (\<forall>c \<in> set (calls e a f). 3 \<le> stage_of c \<longrightarrow>
      filter is_copy (calls e a f) =
        map (\<lambda>src. Copyfile src (os_path_join (working_dir e a) (os_path_basename src))) (supplied a)) \<and>
   (outcome e a f = Inr () \<longrightarrow>
      filter is_copy (calls e a f) =
        map (\<lambda>src. Copyfile src (os_path_join (working_dir e a) (os_path_basename src))) (supplied a)) \<and>
   (\<forall>src. os_path_basename (os_path_join (working_dir e a) (os_path_basename src)) = os_path_basename src \<and>
      os_path_join (working_dir e a) (os_path_basename src) =
        working_dir e a @ (if last (working_dir e a) = sep then [] else [sep]) @ os_path_basename src) \<and>
   (\<forall>t r d c m x. PopulateTemplate t r d c m x \<in> set (calls e a f) \<longrightarrow>
      d = os_path_join (working_dir e a) (os_path_basename (dsm a)) \<and>
      c = os_path_join (working_dir e a) (os_path_basename (cls a)) \<and>
      m = (case mtl a of None \<Rightarrow> [] | Some src \<Rightarrow> os_path_join (working_dir e a) (os_path_basename src)) \<and>
      x = (case dtm a of None \<Rightarrow> [] | Some src \<Rightarrow> os_path_join (working_dir e a) (os_path_basename src))) \<and>
   (\<forall>p t. ConvertCoordinateSystem p t \<in> set (calls e a f) \<longrightarrow>
      (\<exists>src \<in> set (supplied a). p = os_path_join (working_dir e a) (os_path_basename src)))"
proof (intro conjI impI allI ballI)
  show "prefix (filter is_copy (calls e a f))
     (map (\<lambda>src. Copyfile src (os_path_join (working_dir e a) (os_path_basename src))) (supplied a))"
    using copy_filter_prefix [of e a f] by (simp add: copy_calls_eq staged_def)
next
  fix c assume "c \<in> set (calls e a f)" "3 \<le> stage_of c"
  from copy_filter_complete [OF this]
  show "filter is_copy (calls e a f) =
        map (\<lambda>src. Copyfile src (os_path_join (working_dir e a) (os_path_basename src))) (supplied a)"
    by (simp add: copy_calls_eq staged_def)
next
  assume "outcome e a f = Inr ()"
  then obtain c t where full:
    "calls e a f = dir_calls e a f @ copy_calls e a @ config_calls e a c
       @ GetCoordinateSystem (ref_dsm a) (Some t) # reproject_calls e a t
       @ [ConvertFloat32 (test_dsm e a), engine_call e a]"
    by (rule success_calls)
  have "filter is_copy (calls e a f) = copy_calls e a"
    unfolding full by (simp add: is_copy_stage block_filter engine_call_stage)
  then show "filter is_copy (calls e a f) =
        map (\<lambda>src. Copyfile src (os_path_join (working_dir e a) (os_path_basename src))) (supplied a)"
    by (simp add: copy_calls_eq staged_def)
next
  fix src
  show "os_path_basename (os_path_join (working_dir e a) (os_path_basename src)) = os_path_basename src"
    using basename_staged [of e a src] by (simp add: staged_def)
  show "os_path_join (working_dir e a) (os_path_basename src) =
        working_dir e a @ (if last (working_dir e a) = sep then [] else [sep]) @ os_path_basename src"
    using staged_shape [of e a src] by (simp add: staged_def)
next
  fix t r d c m x assume "PopulateTemplate t r d c m x \<in> set (calls e a f)"
  from populate_call_mem [OF this]
  show "d = os_path_join (working_dir e a) (os_path_basename (dsm a))"
    and "c = os_path_join (working_dir e a) (os_path_basename (cls a))"
    and "m = (case mtl a of None \<Rightarrow> [] | Some src \<Rightarrow> os_path_join (working_dir e a) (os_path_basename src))"
    and "x = (case dtm a of None \<Rightarrow> [] | Some src \<Rightarrow> os_path_join (working_dir e a) (os_path_basename src))"
    by (simp_all add: test_dsm_def test_cls_def test_mtl_def test_dtm_def staged_opt_def)
next
  fix p t assume "ConvertCoordinateSystem p t \<in> set (calls e a f)"
  from reproject_call_mem [OF this]
  show "\<exists>src \<in> set (supplied a). p = os_path_join (working_dir e a) (os_path_basename src)"
    by (auto simp: reproject_calls_eq staged_def)
qed

theorem staging_copies_supplied_inputs_witness:
  "outcome demo_env demo_args demo_fs = Inr () \<and>
   dtm demo_args = None \<and>
   filter is_copy (calls demo_env demo_args demo_fs) =
     [Copyfile ''in/d.tif'' ''out/d.tif'', Copyfile ''in/c.tif'' ''out/c.tif'',
      Copyfile ''in/m.tif'' ''out/m.tif''] \<and>
   (\<exists>t r d c m. PopulateTemplate t r d c m [] \<in> set (calls demo_env demo_args demo_fs))"
proof -
  have ok: "outcome demo_env demo_args demo_fs = Inr ()"
    by (rule demo_outcome)
  have none: "dtm demo_args = None"
    by (simp add: demo_defs)
  have pop: "PopulateTemplate (template demo_env) ''AOI'' ''out/d.tif'' ''out/c.tif'' ''out/m.tif'' []
      \<in> set (calls demo_env demo_args demo_fs)"
    by (simp add: demo_calls)
  note claim = staging_copies_supplied_inputs [of demo_env demo_args demo_fs]
  note copies = claim [THEN conjunct2, THEN conjunct2, THEN conjunct1, rule_format, OF ok]
  from copies have "filter is_copy (calls demo_env demo_args demo_fs) =
     [Copyfile ''in/d.tif'' ''out/d.tif'', Copyfile ''in/c.tif'' ''out/c.tif'',
      Copyfile ''in/m.tif'' ''out/m.tif'']"
    using demo_staged by (simp add: staged_def)
  with ok none pop show ?thesis by blast
qed

text \<open>
  C7. The engine is called at most once in any run, and exactly once in a run in which
  every step succeeds; where it is called it is the last call, its arguments are
  \<^verbatim>\<open>--config\<close> with the path the config document was written to, \<^verbatim>\<open>--reference\<close>
  with the reference directory of the command line, and \<^verbatim>\<open>--test\<close> and
  \<^verbatim>\<open>--output\<close> with the working directory, the directory the first step checked or
  created.
\<close>

theorem engine_invoked_once_last:
  "(outcome e a f = Inr () \<longrightarrow>
      filter is_engine (calls e a f) =
        [Core3dMetrics [''--config'', config_filename e a, ''--reference'', ref_dir a,
                        ''--test'', working_dir e a, ''--output'', working_dir e a]]) \<and>
   (\<forall>argv. Core3dMetrics argv \<in> set (calls e a f) \<longrightarrow>
      argv = [''--config'', config_filename e a, ''--reference'', ref_dir a,
              ''--test'', working_dir e a, ''--output'', working_dir e a] \<and>
      last (calls e a f) = Core3dMetrics argv \<and>
      filter is_engine (calls e a f) = [Core3dMetrics argv] \<and>
      (\<exists>contents. OpenWrite (config_filename e a) contents \<in> set (calls e a f))) \<and>
   (PathExists (working_dir e a) \<in> set (calls e a f) \<or> Mkdir (working_dir e a) \<in> set (calls e a f))"
proof (intro conjI impI allI)
  assume "outcome e a f = Inr ()"
  then obtain c t where full:
    "calls e a f = dir_calls e a f @ copy_calls e a @ config_calls e a c
       @ GetCoordinateSystem (ref_dsm a) (Some t) # reproject_calls e a t
       @ [ConvertFloat32 (test_dsm e a), engine_call e a]"
    by (rule success_calls)
  have "filter is_engine (calls e a f) = [engine_call e a]"
    unfolding full by (simp add: is_engine_stage block_filter engine_call_stage)
  then show "filter is_engine (calls e a f) =
        [Core3dMetrics [''--config'', config_filename e a, ''--reference'', ref_dir a,
                        ''--test'', working_dir e a, ''--output'', working_dir e a]]"
    by (simp add: engine_call_def)
next
  fix argv assume "Core3dMetrics argv \<in> set (calls e a f)"
  note m = engine_call_mem [OF this]
  from m show "argv = [''--config'', config_filename e a, ''--reference'', ref_dir a,
              ''--test'', working_dir e a, ''--output'', working_dir e a]"
    by (simp add: engine_call_def)
  from m show "last (calls e a f) = Core3dMetrics argv"
    by simp
  from m show "filter is_engine (calls e a f) = [Core3dMetrics argv]"
    by simp
  from m show "\<exists>contents. OpenWrite (config_filename e a) contents \<in> set (calls e a f)"
    by simp
next
  show "PathExists (working_dir e a) \<in> set (calls e a f) \<or> Mkdir (working_dir e a) \<in> set (calls e a f)"
    by (rule calls_working_dir)
qed

theorem engine_invoked_once_last_witness:
  "outcome demo_env demo_args demo_fs = Inr () \<and>
   filter is_engine (calls demo_env demo_args demo_fs) =
     [Core3dMetrics [''--config'', ''out/d.tif_c.tif.config'', ''--reference'', ''ref'',
                     ''--test'', ''out'', ''--output'', ''out'']] \<and>
   OpenWrite ''out/d.tif_c.tif.config'' ''ref=AOI dsm=out/d.tif cls=out/c.tif mtl=out/m.tif dtm=''
     \<in> set (calls demo_env demo_args demo_fs)"
proof -
  have ok: "outcome demo_env demo_args demo_fs = Inr ()"
    by (rule demo_outcome)
  have vals: "config_filename demo_env demo_args = ''out/d.tif_c.tif.config''"
    "ref_dir demo_args = ''ref''" "working_dir demo_env demo_args = ''out''"
    by (simp_all add: config_filename_def test_dsm_def test_cls_def working_dir_def model_defs demo_defs)
  have written: "OpenWrite ''out/d.tif_c.tif.config'' ''ref=AOI dsm=out/d.tif cls=out/c.tif mtl=out/m.tif dtm=''
     \<in> set (calls demo_env demo_args demo_fs)"
    by (simp add: demo_calls)
  note claim = engine_invoked_once_last [of demo_env demo_args demo_fs]
  from claim [THEN conjunct1, rule_format, OF ok] ok written
  show ?thesis by (simp add: vals)
qed



text \<open>
  C10. Without an output directory the working directory is \<^verbatim>\<open>metrics-\<close> followed by
  the part of the printed timestamp before the decimal point, which is the whole seconds
  of the clock, and it is made with \<^verbatim>\<open>os.mkdir\<close>: when something of that name exists,
  \<^verbatim>\<open>create_working_dir\<close> raises \<^verbatim>\<open>FileExistsError\<close> after the two calls, changing
  nothing. So when a run without output directory has got past making its directory,
  a second run without output directory, started in the same second from the same
  current directory on the file system the first one left, makes the same two calls and
  fails with \<^verbatim>\<open>FileExistsError\<close> for that name, and leaves the file system as it was.
\<close>

theorem same_second_collision:
  "split_dot0 (show_nat (clock_secs e) @ ''.'' @ clock_frac e) = show_nat (clock_secs e) \<and>
   (\<forall>r s'. create_working_dir e s = (r, s') \<longrightarrow>
      trace s' = trace s @ [Now, Mkdir (''metrics-'' @ show_nat (clock_secs e))] \<and>
      (r = Inr (''metrics-'' @ show_nat (clock_secs e)) \<or> (\<exists>err. r = Inl err))) \<and>
   (lookup e (fs s) (''metrics-'' @ show_nat (clock_secs e)) \<noteq> None \<longrightarrow>
      create_working_dir e s =
        (Inl (FileExistsError (''metrics-'' @ show_nat (clock_secs e))),
         log (Mkdir (''metrics-'' @ show_nat (clock_secs e))) (log Now s))) \<and>
   (\<forall>(e' :: env) (a' :: args). (output_dir a = None \<or> output_dir a = Some []) \<and>
        (output_dir a' = None \<or> output_dir a' = Some []) \<and>
        clock_secs e' = clock_secs e \<and> cwd e' = cwd e \<and>
        (\<exists>c \<in> set (calls e a f). 2 \<le> stage_of c) \<longrightarrow>
      outcome e' a' (final_fs e a f) = Inl (FileExistsError (''metrics-'' @ show_nat (clock_secs e))) \<and>
      calls e' a' (final_fs e a f) = [Now, Mkdir (''metrics-'' @ show_nat (clock_secs e))] \<and>
      final_fs e' a' (final_fs e a f) = final_fs e a f)"
proof (intro conjI allI impI; (elim conjE bexE)?)
  show "split_dot0 (show_nat (clock_secs e) @ ''.'' @ clock_frac e) = show_nat (clock_secs e)"
    by (simp add: split_dot0_timestamp)
next
  fix r s' assume run: "create_working_dir e s = (r, s')"
  from create_working_dir_run [OF run]
  show "trace s' = trace s @ [Now, Mkdir (''metrics-'' @ show_nat (clock_secs e))]"
    and "r = Inr (''metrics-'' @ show_nat (clock_secs e)) \<or> (\<exists>err. r = Inl err)"
    by auto
next
  assume "lookup e (fs s) (''metrics-'' @ show_nat (clock_secs e)) \<noteq> None"
  then show "create_working_dir e s =
        (Inl (FileExistsError (''metrics-'' @ show_nat (clock_secs e))),
         log (Mkdir (''metrics-'' @ show_nat (clock_secs e))) (log Now s))"
    using create_working_dir_exists [of e s] by (simp add: timestamp_dir_def)
next
  fix e' :: env and a' :: args and c
  assume a: "output_dir a = None \<or> output_dir a = Some []"
    and a': "output_dir a' = None \<or> output_dir a' = Some []"
    and secs: "clock_secs e' = clock_secs e" and cwd: "cwd e' = cwd e"
    and c: "c \<in> set (calls e a f)" "2 \<le> stage_of c"
  from c obtain s1 where step: "main_working_dir e a \<lparr>fs = f, trace = []\<rparr> = (Inr (working_dir e a), s1)"
    and kept: "kept (written e a) (fs s1) (final_fs e a f)"
    by (rule reached_staging)
  from step have "create_working_dir e \<lparr>fs = f, trace = []\<rparr> = (Inr (working_dir e a), s1)"
    by (simp add: main_working_dir_timestamp [OF a])
  from create_working_dir_effect [OF this] have "lookup e (fs s1) (timestamp_dir e) = Some Dir"
    by auto
  with kept have "lookup e (final_fs e a f) (timestamp_dir e) = Some Dir"
    by (rule kept_lookup_dir)
  moreover have name: "timestamp_dir e' = timestamp_dir e"
    by (simp add: timestamp_dir_def secs)
  ultimately have "lookup e' (final_fs e a f) (timestamp_dir e') \<noteq> None"
    by (simp add: lookup_cwd [OF cwd])
  from timestamp_dir_collision [OF a' this]
  show "outcome e' a' (final_fs e a f) = Inl (FileExistsError (''metrics-'' @ show_nat (clock_secs e)))"
    and "calls e' a' (final_fs e a f) = [Now, Mkdir (''metrics-'' @ show_nat (clock_secs e))]"
    and "final_fs e' a' (final_fs e a f) = final_fs e a f"
    by (simp_all add: outcome_def calls_def final_fs_def name) (simp_all add: timestamp_dir_def)
qed

theorem same_second_collision_witness:
  "clock_secs later_env = clock_secs demo_env \<and>
   (\<exists>c \<in> set (calls demo_env stamp_args demo_fs). 2 \<le> stage_of c) \<and>
   outcome later_env stamp_args (final_fs demo_env stamp_args demo_fs) =
     Inl (FileExistsError ''metrics-1730000000'') \<and>
   calls later_env stamp_args (final_fs demo_env stamp_args demo_fs) =
     [Now, Mkdir ''metrics-1730000000'']"
proof -
  have none: "output_dir stamp_args = None \<or> output_dir stamp_args = Some []"
    by (simp add: stamp_args_def)
  have secs: "clock_secs later_env = clock_secs demo_env" and cwd: "cwd later_env = cwd demo_env"
    by (simp_all add: later_env_def)
  have reached: "\<exists>c \<in> set (calls demo_env stamp_args demo_fs). 2 \<le> stage_of c"
    using stamp_calls_copy by (intro bexI [of _ "Copyfile ''in/d.tif'' ''metrics-1730000000/d.tif''"]) simp_all
  have name: "show_nat (clock_secs demo_env) = ''1730000000''"
    by (simp add: demo_env_def show_nat.simps digit_char_def)
  note claim = same_second_collision [where e = demo_env and a = stamp_args and f = demo_fs]
  from claim [THEN conjunct2, THEN conjunct2, THEN conjunct2, rule_format,
      of stamp_args later_env] none secs cwd reached
  show ?thesis by (simp add: name)
qed










end
